theory Spec2Isabelle
  imports Complex_Main "HOL-Library.Word" "HOL-Library.Log_Nat"
begin

unbundle bit_operations_syntax

section \<open>Bytes, buffers and the WAV header\<close>

text \<open>
  The speech namespace of \<^verbatim>\<open>src/sockets/index.ts\<close> keeps one WAV file per session on disk.
  A Node \<^verbatim>\<open>Buffer\<close> is a list of bytes; a JavaScript \<^verbatim>\<open>Error\<close> is identified with its
  message, so a function that can throw returns \<open>string + 'a\<close> with the message on the left.
\<close>

type_synonym byte = "8 word"
type_synonym buffer = "byte list"
type_synonym error = string

definition ascii :: "string \<Rightarrow> buffer" where
  "ascii str = map (\<lambda>c. of_nat (of_char c)) str"

text \<open>\<^verbatim>\<open>Buffer.alloc(n)\<close>: n zero bytes.\<close>

definition Buffer_alloc :: "nat \<Rightarrow> buffer" where
  "Buffer_alloc n = replicate n 0"

text \<open>\<^verbatim>\<open>buf.write(str, offset)\<close>: copies as many bytes as fit, never grows the buffer.\<close>

definition Buffer_write :: "string \<Rightarrow> nat \<Rightarrow> buffer \<Rightarrow> buffer" where
  "Buffer_write str offset buf =
     take (length buf)
       (take offset buf @ take (length buf - offset) (ascii str) @ drop (offset + length str) buf)"

text \<open>The k low bytes of a non-negative integer, least significant first.\<close>

fun le_bytes :: "nat \<Rightarrow> int \<Rightarrow> buffer" where
  "le_bytes 0 v = []"
| "le_bytes (Suc k) v = of_int (v mod 256) # le_bytes k (v div 256)"

text \<open>
  \<^verbatim>\<open>buf.writeUInt32LE(value, offset)\<close> and \<^verbatim>\<open>buf.writeUInt16LE(value, offset)\<close> throw a
  RangeError when the value does not fit or the offset leaves the buffer.
\<close>

definition writeUIntLE :: "nat \<Rightarrow> int \<Rightarrow> nat \<Rightarrow> buffer \<Rightarrow> error + buffer" where
  "writeUIntLE k v offset buf =
     (if v < 0 \<or> 2 ^ (8 * k) \<le> v then Inl ''ERR_OUT_OF_RANGE''
      else if length buf < offset + k then Inl ''ERR_OUT_OF_RANGE''
      else Inr (take offset buf @ le_bytes k v @ drop (offset + k) buf))"

definition writeUInt32LE :: "int \<Rightarrow> nat \<Rightarrow> buffer \<Rightarrow> error + buffer" where
  "writeUInt32LE = writeUIntLE 4"

definition writeUInt16LE :: "int \<Rightarrow> nat \<Rightarrow> buffer \<Rightarrow> error + buffer" where
  "writeUInt16LE = writeUIntLE 2"

text \<open>Reading a little-endian unsigned value back; \<open>None\<close> when it leaves the buffer.\<close>

fun le_value :: "buffer \<Rightarrow> nat" where
  "le_value [] = 0"
| "le_value (b # bs) = unat b + 256 * le_value bs"

definition readUInt32LE :: "buffer \<Rightarrow> nat \<Rightarrow> nat option" where
  "readUInt32LE buf offset =
     (if offset + 4 \<le> length buf then Some (le_value (take 4 (drop offset buf))) else None)"

text \<open>Sequencing of operations that can throw.\<close>

definition bindE :: "error + 'a \<Rightarrow> ('a \<Rightarrow> error + 'b) \<Rightarrow> error + 'b" where
  "bindE m f = (case m of Inl e \<Rightarrow> Inl e | Inr x \<Rightarrow> f x)"

text \<open>
  \<^verbatim>\<open>createWavHeader(options)\<close>. The byte rate and block align are quotients by 8; at the only
  call site (one channel, 16 bits) the division is exact.
\<close>

record WavOptions =
  opt_sampleRate :: int
  opt_channels :: int
  opt_bitDepth :: int
  opt_format :: int

definition createWavHeader :: "WavOptions \<Rightarrow> error + buffer" where
  "createWavHeader options =
     (let sampleRate = opt_sampleRate options;
          channels = opt_channels options;
          bitDepth = opt_bitDepth options;
          format = opt_format options;
          byteRate = (sampleRate * channels * bitDepth) div 8;
          blockAlign = (channels * bitDepth) div 8;
          dataSize = 0;
          b0 = Buffer_alloc 44;
          b1 = Buffer_write ''RIFF'' 0 b0
      in bindE (writeUInt32LE (36 + dataSize) 4 b1) (\<lambda>b2.
         let b3 = Buffer_write ''WAVE'' 8 b2;
             b4 = Buffer_write ''fmt '' 12 b3
         in bindE (writeUInt32LE 16 16 b4) (\<lambda>b5.
            bindE (writeUInt16LE format 20 b5) (\<lambda>b6.
            bindE (writeUInt16LE channels 22 b6) (\<lambda>b7.
            bindE (writeUInt32LE sampleRate 24 b7) (\<lambda>b8.
            bindE (writeUInt32LE byteRate 28 b8) (\<lambda>b9.
            bindE (writeUInt16LE blockAlign 32 b9) (\<lambda>b10.
            bindE (writeUInt16LE bitDepth 34 b10) (\<lambda>b11.
            let b12 = Buffer_write ''data'' 36 b11
            in writeUInt32LE dataSize 40 b12)))))))))"

subsection \<open>The disk\<close>

text \<open>
  The file system is a map from paths to contents. It is a reliable store: an operation
  fails only for a reason visible in the store (a missing file, a stream that is not open).
\<close>

type_synonym disk = "string \<rightharpoonup> buffer"

text \<open>\<^verbatim>\<open>fd.write(buffer, 0, length, position)\<close> on a file opened with \<^verbatim>\<open>r+\<close>.\<close>

definition fd_write :: "buffer \<Rightarrow> nat \<Rightarrow> buffer \<Rightarrow> buffer" where
  "fd_write data position file =
     (let padded = file @ replicate (position - length file) 0
      in take position padded @ data @ drop (position + length data) padded)"

text \<open>
  \<^verbatim>\<open>updateWavHeader(filePath, dataSize)\<close>. The disk is returned also when the function
  throws, since the first field may have been written before the second value is rejected.
\<close>

definition updateWavHeader :: "string \<Rightarrow> int \<Rightarrow> disk \<Rightarrow> (error + unit) \<times> disk" where
  "updateWavHeader filePath dataSize d =
     (case d filePath of
        None \<Rightarrow> (Inl ''ENOENT'', d)
      | Some file \<Rightarrow>
          (let fileSize = 36 + dataSize
           in case writeUInt32LE (fileSize - 8) 0 (Buffer_alloc 4) of
                Inl err \<Rightarrow> (Inl err, d)
              | Inr fileSizeBuffer \<Rightarrow>
                  (let file1 = fd_write (take 4 fileSizeBuffer) 4 file;
                       d1 = d(filePath \<mapsto> file1)
                   in case writeUInt32LE dataSize 0 (Buffer_alloc 4) of
                        Inl err \<Rightarrow> (Inl err, d1)
                      | Inr dataSizeBuffer \<Rightarrow>
                          (Inr (), d1(filePath \<mapsto> fd_write (take 4 dataSizeBuffer) 40 file1)))))"

section \<open>Sessions, the server state and its environment\<close>

text \<open>\<^verbatim>\<open>SessionData\<close>, field by field. Times are milliseconds (\<^verbatim>\<open>Date.now()\<close>).\<close>

record SessionData =
  audioChunks :: "buffer list"
  lastProcessed :: int
  tempFile :: "string option"
  sampleFile :: "string option"
  sampleRate :: int
  writeStream :: "string option"
  isPaused :: bool
  pendingFinalize :: bool
  pendingChunks :: "buffer list"

text \<open>What a socket receives: acknowledgement callbacks and emitted events.\<close>

datatype response =
    InitResponse bool string int string int
  | AudioAck string nat
  | ControlResponse bool string
  | StopResponse bool string "string option" "string option"
  | TranscriptEvent string bool string
  | ErrorString string
  | ErrorObject string "string option"

datatype outbound = Callback response | Emit string response

text \<open>Calls that leave the process, in the order they are made.\<close>

datatype action =
    PrimaryCall buffer
  | FallbackCall buffer int
  | Retrying int int

text \<open>
  The module state. \<^verbatim>\<open>sessions\<close> is a \<^verbatim>\<open>Map\<close> from socket id to the session object that
  the connection handler created; the same object stays reachable from the handler's
  closure (\<^verbatim>\<open>sessionData\<close>) after \<^verbatim>\<open>sessions.delete\<close>. So the objects live in \<open>objects\<close>,
  addressed by the id of the socket that created them, and \<open>sessions\<close> holds the keys that
  are in the map. \<open>streams\<close> are the paths with an open append stream.

  A handler is run to completion before the next one starts; the interleaving of two
  handlers at an \<^verbatim>\<open>await\<close> is outside this model.
\<close>

record server =
  objects :: "string \<rightharpoonup> SessionData"
  sessions :: "string set"
  disk :: disk
  streams :: "string set"
  emitted :: "(string \<times> outbound) list"
  trace :: "action list"

datatype http_response =
    NetworkError string
  | HttpError nat "string option" "string option"
  | BadJson string
  | OkJson "string option"

datatype fallback_result = FallbackThrows string | FallbackResult string

text \<open>
  Everything the code reads from outside: the clock, \<^verbatim>\<open>uuidv4()\<close>, the configured key,
  the base64 decoder, and the answers of the remote service, of the local engine and of
  \<^verbatim>\<open>Math.random()\<close>. The three answers may depend on how many outside calls were made
  before (the length of the trace), so every call can be answered differently.
\<close>

record env =
  now :: int
  uuid :: string
  GROQ_API_KEY :: string
  base64 :: "string \<Rightarrow> buffer"
  primary :: "nat \<Rightarrow> buffer \<Rightarrow> http_response"
  fallback :: "nat \<Rightarrow> buffer \<Rightarrow> fallback_result"
  random :: "nat \<Rightarrow> rat"

record socket =
  sock_id :: string
  sock_sessionId :: "string option"

definition SAMPLE_RATE :: int where "SAMPLE_RATE = 16000"
definition MAX_AUDIO_SIZE :: nat where "MAX_AUDIO_SIZE = 25 * 1024 * 1024"
definition MAX_RETRIES :: int where "MAX_RETRIES = 3"
definition RETRY_DELAY_MS :: int where "RETRY_DELAY_MS = 1000"
definition TEMP_DIR :: string where "TEMP_DIR = ''temp''"

definition join :: "string \<Rightarrow> string \<Rightarrow> string" where
  "join a b = a @ ''/'' @ b"

definition sessions_get :: "server \<Rightarrow> string \<Rightarrow> SessionData option" where
  "sessions_get s k = (if k \<in> sessions s then objects s k else None)"

definition put_session :: "string \<Rightarrow> SessionData \<Rightarrow> server \<Rightarrow> server" where
  "put_session k session s = s\<lparr>objects := (objects s)(k \<mapsto> session)\<rparr>"

definition emit :: "socket \<Rightarrow> outbound \<Rightarrow> server \<Rightarrow> server" where
  "emit sock ev s = s\<lparr>emitted := emitted s @ [(sock_id sock, ev)]\<rparr>"

definition record_action :: "action \<Rightarrow> server \<Rightarrow> server" where
  "record_action a s = s\<lparr>trace := trace s @ [a]\<rparr>"

subsection \<open>Text helpers\<close>

fun starts_with :: "string \<Rightarrow> string \<Rightarrow> bool" where
  "starts_with hay [] = True"
| "starts_with [] (n # ns) = False"
| "starts_with (h # hs) (n # ns) = (h = n \<and> starts_with hs ns)"

text \<open>\<^verbatim>\<open>hay.includes(needle)\<close>, case sensitive.\<close>

fun str_includes :: "string \<Rightarrow> string \<Rightarrow> bool" where
  "str_includes [] needle = (needle = [])"
| "str_includes (h # hs) needle = (starts_with (h # hs) needle \<or> str_includes hs needle)"

definition digit :: "nat \<Rightarrow> char" where
  "digit n = ''0123456789'' ! n"

fun show_nat :: "nat \<Rightarrow> string" where
  "show_nat n = (if n < 10 then [digit n] else show_nat (n div 10) @ [digit (n mod 10)])"

declare show_nat.simps [simp del]

section \<open>Chunk storage\<close>

text \<open>
  \<^verbatim>\<open>streamToDisk(session, audioData)\<close>. The session is returned in every case: the path is
  assigned to \<^verbatim>\<open>session.tempFile\<close> before the header is built and written.
\<close>

definition streamToDisk ::
  "env \<Rightarrow> SessionData \<Rightarrow> buffer \<Rightarrow> server \<Rightarrow> (error + string option) \<times> SessionData \<times> server"
  where
  "streamToDisk e session audioData s =
     (let init =
        (case tempFile session of
           Some f \<Rightarrow> (None, session, s)
         | None \<Rightarrow>
             (let path = join TEMP_DIR (uuid e @ ''.wav'');
                  session1 = session\<lparr>tempFile := Some path\<rparr>
              in case createWavHeader \<lparr>opt_sampleRate = sampleRate session1, opt_channels = 1,
                                        opt_bitDepth = 16, opt_format = 1\<rparr> of
                   Inl err \<Rightarrow> (Some err, session1, s)
                 | Inr header \<Rightarrow>
                     (None, session1\<lparr>writeStream := Some path\<rparr>,
                      s\<lparr>disk := (disk s)(path \<mapsto> header), streams := insert path (streams s)\<rparr>)))
      in case init of
           (Some err, session1, s1) \<Rightarrow> (Inl err, session1, s1)
         | (None, session1, s1) \<Rightarrow>
             (case writeStream session1 of
                None \<Rightarrow> (Inl ''Write stream not initialized'', session1, s1)
              | Some p \<Rightarrow>
                  (case (if p \<in> streams s1 then disk s1 p else None) of
                     None \<Rightarrow> (Inl ''ERR_STREAM_WRITE_AFTER_END'', session1, s1)
                   | Some file \<Rightarrow>
                       (Inr (tempFile session1), session1,
                        s1\<lparr>disk := (disk s1)(p \<mapsto> file @ audioData)\<rparr>))))"

text \<open>\<^verbatim>\<open>cleanupSession(sessionId, session)\<close>: end the stream, unlink the file, delete the entry.\<close>

definition cleanupSession :: "string \<Rightarrow> SessionData \<Rightarrow> server \<Rightarrow> server" where
  "cleanupSession sessionId session s =
     (let s1 = (case writeStream session of
                  Some p \<Rightarrow> s\<lparr>streams := streams s - {p}\<rparr>
                | None \<Rightarrow> s);
          s2 = (case tempFile session of
                  Some f \<Rightarrow> s1\<lparr>disk := (disk s1)(f := None)\<rparr>
                | None \<Rightarrow> s1)
      in s2\<lparr>sessions := sessions s2 - {sessionId}\<rparr>)"

section \<open>Transcription\<close>

text \<open>The message of a response that is not ok: the first non-empty of the two body fields.\<close>

definition http_error_message :: "nat \<Rightarrow> string option \<Rightarrow> string option \<Rightarrow> string" where
  "http_error_message status m1 m2 =
     (let errorMessage = ''API request failed with status '' @ show_nat status
      in case m1 of
           Some a \<Rightarrow> (if a \<noteq> [] then a
                      else (case m2 of Some b \<Rightarrow> (if b \<noteq> [] then b else errorMessage)
                                     | None \<Rightarrow> errorMessage))
         | None \<Rightarrow> (case m2 of Some b \<Rightarrow> (if b \<noteq> [] then b else errorMessage)
                             | None \<Rightarrow> errorMessage))"

text \<open>The \<^verbatim>\<open>try\<close> block of \<^verbatim>\<open>transcribeAudio\<close>: the call of the primary service.\<close>

definition primary_attempt :: "env \<Rightarrow> string \<Rightarrow> server \<Rightarrow> (error + string) \<times> server" where
  "primary_attempt e audioPath s =
     (case disk s audioPath of
        None \<Rightarrow> (Inl ''File not found or not readable'', s)
      | Some audioBuffer \<Rightarrow>
          (if MAX_AUDIO_SIZE < length audioBuffer
           then (Inl (''Audio file too large ('' @ show_nat (length audioBuffer) @ '' > ''
                        @ show_nat MAX_AUDIO_SIZE @ '' bytes)''), s)
           else (let s1 = record_action (PrimaryCall audioBuffer) s
                 in case primary e (length (trace s)) audioBuffer of
                      NetworkError m \<Rightarrow> (Inl m, s1)
                    | HttpError status m1 m2 \<Rightarrow> (Inl (http_error_message status m1 m2), s1)
                    | BadJson m \<Rightarrow> (Inl m, s1)
                    | OkJson None \<Rightarrow> (Inl ''Invalid response format from Groq API'', s1)
                    | OkJson (Some text) \<Rightarrow> (Inr text, s1))))"

text \<open>
  The \<^verbatim>\<open>catch\<close> block of \<^verbatim>\<open>transcribeAudio\<close>: the local engine, always called with 16000.
  Its own failure is logged and dropped; an empty text counts as no result.
\<close>

definition fallback_attempt :: "env \<Rightarrow> string \<Rightarrow> server \<Rightarrow> string option \<times> server" where
  "fallback_attempt e audioPath s =
     (case disk s audioPath of
        None \<Rightarrow> (None, s)
      | Some audioBuffer \<Rightarrow>
          (let s1 = record_action (FallbackCall audioBuffer 16000) s
           in case fallback e (length (trace s)) audioBuffer of
                FallbackThrows m \<Rightarrow> (None, s1)
              | FallbackResult text \<Rightarrow> (if text \<noteq> [] then (Some text, s1) else (None, s1))))"

definition transcribeAudio :: "env \<Rightarrow> string \<Rightarrow> server \<Rightarrow> (error + string) \<times> server" where
  "transcribeAudio e audioPath s =
     (if GROQ_API_KEY e = [] then (Inl ''Groq API key not configured'', s)
      else case primary_attempt e audioPath s of
             (Inr text, s1) \<Rightarrow> (Inr text, s1)
           | (Inl err, s1) \<Rightarrow>
               (case fallback_attempt e audioPath s1 of
                  (Some text, s2) \<Rightarrow> (Inr text, s2)
                | (None, s2) \<Rightarrow> (Inl err, s2)))"

definition nonRetryableErrors :: "string list" where
  "nonRetryableErrors =
     [''API key not configured'', ''Invalid response format'', ''invalid file format'',
      ''file not found'']"

definition nonRetryable :: "error \<Rightarrow> bool" where
  "nonRetryable message = list_ex (\<lambda>msg. str_includes message msg) nonRetryableErrors"

text \<open>
  JavaScript numbers are IEEE 754 doubles: the result of an operation is the exact result
  rounded to the nearest number with 53 significant bits, halves going to the even
  neighbour. \<open>binary_exponent x\<close> is the exponent of the leading bit of a positive \<open>x\<close>.
  Subnormal numbers and overflow are left out; the backoff computation comes near neither.
\<close>

definition round_half_even :: "rat \<Rightarrow> int" where
  "round_half_even x =
     (let n = \<lfloor>x\<rfloor>; rest = x - of_int n
      in if rest < 1 / 2 then n else if 1 / 2 < rest then n + 1 else if even n then n else n + 1)"

definition binary_exponent :: "rat \<Rightarrow> int" where
  "binary_exponent x =
     (let d = bitlen (fst (quotient_of x)) - bitlen (snd (quotient_of x))
      in if 2 powi d \<le> x then d else d - 1)"

definition float64 :: "rat \<Rightarrow> rat" where
  "float64 x =
     (if x = 0 then 0
      else (let ulp = 2 powi (binary_exponent \<bar>x\<bar> - 52)
            in of_int (round_half_even (x / ulp)) * ulp))"

text \<open>
  The backoff: \<^verbatim>\<open>Math.round(baseDelay * (0.8 + Math.random() * 0.4))\<close>. The literals and
  the results of the two products and of the sum are doubles; \<^verbatim>\<open>baseDelay\<close> is a whole
  number of at most 30000 and exact. \<^verbatim>\<open>Math.round\<close> rounds halves up, as \<open>round\<close> does.
\<close>

definition backoff_delay :: "int \<Rightarrow> rat \<Rightarrow> int" where
  "backoff_delay attempt r =
     (let baseDelay = min (RETRY_DELAY_MS * 2 ^ nat (attempt - 1)) 30000;
          jitter = float64 (float64 (4 / 5) + float64 (r * float64 (2 / 5)))
      in round (float64 (of_int baseDelay * jitter)))"

text \<open>The \<^verbatim>\<open>for\<close> loop of \<^verbatim>\<open>transcribeWithRetry\<close>, from a given attempt on.\<close>

function retry_loop ::
  "env \<Rightarrow> string \<Rightarrow> int \<Rightarrow> int \<Rightarrow> error option \<Rightarrow> server \<Rightarrow> (error + string) \<times> server" where
  "retry_loop e audioPath maxRetries attempt lastError s =
     (if attempt \<le> maxRetries then
        (case transcribeAudio e audioPath s of
           (Inr result, s1) \<Rightarrow> (Inr result, s1)
         | (Inl err, s1) \<Rightarrow>
             (if nonRetryable err then (Inl err, s1)
              else (let s2 = (if attempt < maxRetries
                              then record_action
                                     (Retrying attempt
                                        (backoff_delay attempt (random e (length (trace s1))))) s1
                              else s1)
                    in retry_loop e audioPath maxRetries (attempt + 1) (Some err) s2)))
      else (Inl (case lastError of
                   Some err \<Rightarrow> err
                 | None \<Rightarrow> ''Transcription failed after multiple attempts''), s))"
  by pat_completeness auto
termination
  by (relation "measure (\<lambda>(e, audioPath, maxRetries, attempt, lastError, s). nat (maxRetries + 1 - attempt))")
    auto

declare retry_loop.simps [simp del]

definition transcribeWithRetry :: "env \<Rightarrow> string \<Rightarrow> int \<Rightarrow> server \<Rightarrow> (error + string) \<times> server" where
  "transcribeWithRetry e audioPath maxRetries s =
     retry_loop e audioPath (if maxRetries \<le> 0 then 1 else maxRetries) 1 None s"

section \<open>Processing a chunk\<close>

text \<open>
  The \<^verbatim>\<open>try\<close> block of \<^verbatim>\<open>processAudioChunk\<close>: size check, header update, transcription
  with retries, and the \<^verbatim>\<open>transcript\<close> event (its two time fields are left out).
\<close>

definition processAudioChunk_try ::
  "env \<Rightarrow> socket \<Rightarrow> string \<Rightarrow> SessionData \<Rightarrow> server \<Rightarrow> (error + unit) \<times> SessionData \<times> server"
  where
  "processAudioChunk_try e sock tempFileToCleanup session s =
     (case disk s tempFileToCleanup of
        None \<Rightarrow> (Inl ''ENOENT'', session, s)
      | Some file \<Rightarrow>
          (let size = length file
           in if size < 44
              then (Inl (''Audio file is too small ('' @ show_nat size @ '' bytes)''), session, s)
              else (let dataSize = int size - 44
                    in case updateWavHeader tempFileToCleanup dataSize (disk s) of
                         (Inl err, d1) \<Rightarrow> (Inl err, session, s\<lparr>disk := d1\<rparr>)
                       | (Inr u, d1) \<Rightarrow>
                           (case transcribeWithRetry e tempFileToCleanup MAX_RETRIES
                                   (s\<lparr>disk := d1\<rparr>) of
                              (Inl err, s2) \<Rightarrow> (Inl err, session, s2)
                            | (Inr transcript, s2) \<Rightarrow>
                                (if transcript \<noteq> []
                                 then (Inr (), session\<lparr>lastProcessed := now e\<rparr>,
                                       emit sock
                                         (Emit ''transcript'' (TranscriptEvent transcript True ''groq''))
                                         s2)
                                 else (Inl ''Received empty transcription result'', session, s2))))))"

text \<open>
  \<^verbatim>\<open>processAudioChunk(socket, sessionId, session)\<close>: throws only when there is no temp file;
  every error of the \<^verbatim>\<open>try\<close> block is caught and answered with one fixed \<^verbatim>\<open>error\<close> event.
\<close>

definition processAudioChunk ::
  "env \<Rightarrow> socket \<Rightarrow> SessionData \<Rightarrow> server \<Rightarrow> error + SessionData \<times> server" where
  "processAudioChunk e sock session s =
     (case tempFile session of
        None \<Rightarrow> Inl ''No temporary file to process''
      | Some tempFileToCleanup \<Rightarrow>
          (case processAudioChunk_try e sock tempFileToCleanup session s of
             (Inl err, session1, s1) \<Rightarrow>
               Inr (session1, emit sock (Emit ''error'' (ErrorString ''Failed to process audio'')) s1)
           | (Inr u, session1, s1) \<Rightarrow> Inr (session1, s1)))"

text \<open>
  \<^verbatim>\<open>shouldProcessChunk(session, audioData)\<close>; \<^verbatim>\<open>statSync\<close> throws on a missing file and the
  \<^verbatim>\<open>catch\<close> answers true.
\<close>

definition shouldProcessChunk :: "env \<Rightarrow> SessionData \<Rightarrow> buffer \<Rightarrow> disk \<Rightarrow> bool" where
  "shouldProcessChunk e session audioData d =
     (case tempFile session of
        None \<Rightarrow> True
      | Some f \<Rightarrow>
          (case d f of
             None \<Rightarrow> True
           | Some file \<Rightarrow>
               (let stats_size = length file;
                    bytesPerSecond = sampleRate session * 2;
                    minAudioBytes = (of_int bytesPerSecond :: rat) * (1 / 2)
                in minAudioBytes \<le> of_nat stats_size
                   \<or> (lastProcessed session = 0 \<and> 0 < stats_size)
                   \<or> pendingFinalize session)))"

section \<open>The socket handlers of the speech namespace\<close>

text \<open>
  Inbound payloads. \<^verbatim>\<open>data.data\<close> is a string, an array of numbers, or something else
  (then only its \<^verbatim>\<open>typeof\<close> matters). A missing field is \<open>None\<close>.
\<close>

datatype payload = Str string | Arr "int list" | Other string

record AudioMsg =
  msg_data :: payload
  msg_format :: "string option"
  msg_sampleRate :: "int option"

record InitMsg =
  init_sampleRate :: "int option"
  init_language :: "string option"
  init_sessionId :: "string option"

definition Buffer_from :: "int list \<Rightarrow> buffer" where
  "Buffer_from xs = map of_int xs"

definition payload_length :: "payload \<Rightarrow> nat" where
  "payload_length p = (case p of Str str \<Rightarrow> length str | Arr xs \<Rightarrow> length xs | Other t \<Rightarrow> 0)"

definition fresh_session :: "env \<Rightarrow> SessionData" where
  "fresh_session e =
     \<lparr>audioChunks = [], lastProcessed = now e, tempFile = None, sampleFile = None,
      sampleRate = SAMPLE_RATE, writeStream = None, isPaused = False,
      pendingFinalize = False, pendingChunks = []\<rparr>"

text \<open>The connection handler: a new session object under the socket's id.\<close>

definition connection :: "env \<Rightarrow> socket \<Rightarrow> server \<Rightarrow> server" where
  "connection e sock s =
     s\<lparr>objects := (objects s)(sock_id sock \<mapsto> fresh_session e),
       sessions := insert (sock_id sock) (sessions s)\<rparr>"

text \<open>
  \<^verbatim>\<open>init\<close> works on the closure's \<^verbatim>\<open>sessionData\<close>, whether or not it is still in the map.
  (The first case is a socket that never connected.)
\<close>

definition on_init :: "env \<Rightarrow> socket \<Rightarrow> InitMsg \<Rightarrow> bool \<Rightarrow> server \<Rightarrow> server" where
  "on_init e sock data has_callback s =
     (case objects s (sock_id sock) of
        None \<Rightarrow> s
      | Some sessionData \<Rightarrow>
          (let sessionData1 =
                 (case init_sampleRate data of
                    Some r \<Rightarrow> (if r \<noteq> 0 then sessionData\<lparr>sampleRate := r\<rparr> else sessionData)
                  | None \<Rightarrow> sessionData);
               response = InitResponse True (sock_id sock) (sampleRate sessionData1)
                            ''Session initialized successfully'' (now e);
               s1 = put_session (sock_id sock) sessionData1 s;
               s2 = (if has_callback then emit sock (Callback response) s1 else s1)
           in emit sock (Emit ''init_ack'' response) s2))"

definition decode_audio :: "env \<Rightarrow> AudioMsg \<Rightarrow> error + buffer" where
  "decode_audio e data =
     (case msg_data data of
        Str str \<Rightarrow> (if msg_format data = Some ''wav'' then Inr (base64 e str)
                     else Inl (''Invalid audio data format: '' @ ''string''))
      | Arr xs \<Rightarrow> Inr (Buffer_from xs)
      | Other t \<Rightarrow> Inl (''Invalid audio data format: '' @ t))"

text \<open>\<^verbatim>\<open>toString('ascii', a, b)\<close> clears the high bit of every byte.\<close>

definition toString_ascii :: "buffer \<Rightarrow> nat \<Rightarrow> nat \<Rightarrow> buffer" where
  "toString_ascii buf a b = map (\<lambda>x. x AND 127) (take (b - a) (drop a buf))"

definition isWav :: "buffer \<Rightarrow> bool" where
  "isWav audioData =
     (12 < length audioData
      \<and> toString_ascii audioData 0 4 = ascii ''RIFF''
      \<and> toString_ascii audioData 8 12 = ascii ''WAVE'')"

text \<open>
  The inner \<^verbatim>\<open>try\<close> block of the \<^verbatim>\<open>audio\<close> handler. The background call of
  \<^verbatim>\<open>processAudioChunk\<close> runs where it is started.
\<close>

definition audio_try ::
  "env \<Rightarrow> socket \<Rightarrow> AudioMsg \<Rightarrow> bool \<Rightarrow> SessionData \<Rightarrow> server
     \<Rightarrow> (error + unit) \<times> SessionData \<times> server" where
  "audio_try e sock data has_ack session s =
     (case decode_audio e data of
        Inl err \<Rightarrow> (Inl err, session, s)
      | Inr audioData \<Rightarrow>
          (if \<not> isWav audioData
           then (Inl ''Invalid WAV data: Missing RIFF/WAVE headers'', session, s)
           else (case streamToDisk e session audioData s of
                   (Inl err, session1, s1) \<Rightarrow> (Inl err, session1, s1)
                 | (Inr f, session1, s1) \<Rightarrow>
                     (let s2 = (if has_ack
                                then emit sock (Callback (AudioAck ''received'' (length audioData))) s1
                                else s1);
                          shouldProcess = shouldProcessChunk e session1 audioData (disk s2);
                          bg = (if shouldProcess \<and> tempFile session1 \<noteq> None
                                then (case processAudioChunk e sock session1 s2 of
                                        Inl err \<Rightarrow>
                                          (session1,
                                           emit sock
                                             (Emit ''error''
                                                (ErrorObject ''Background processing error'' (Some err)))
                                             s2)
                                      | Inr done \<Rightarrow> done)
                                else (session1, s2))
                      in if pendingFinalize (fst bg)
                         then (case processAudioChunk e sock (fst bg) (snd bg) of
                                 Inl err \<Rightarrow> (Inl err, fst bg, snd bg)
                               | Inr (session3, s4) \<Rightarrow>
                                   (Inr (), session3\<lparr>pendingFinalize := False\<rparr>, s4))
                         else (Inr (), fst bg, snd bg)))))"

definition on_audio :: "env \<Rightarrow> socket \<Rightarrow> AudioMsg \<Rightarrow> bool \<Rightarrow> server \<Rightarrow> server" where
  "on_audio e sock data has_ack s =
     (case sessions_get s (sock_id sock) of
        None \<Rightarrow> s
      | Some session \<Rightarrow>
          (if isPaused session
           then (let session1 =
                       (case msg_data data of
                          Str str \<Rightarrow>
                            (if msg_format data = Some ''wav''
                             then session\<lparr>pendingChunks := pendingChunks session @ [base64 e str]\<rparr>
                             else session)
                        | Arr xs \<Rightarrow>
                            session\<lparr>pendingChunks := pendingChunks session @ [Buffer_from xs]\<rparr>
                        | Other t \<Rightarrow> session);
                     s1 = put_session (sock_id sock) session1 s
                 in if has_ack
                    then emit sock (Callback (AudioAck ''buffered'' (payload_length (msg_data data)))) s1
                    else s1)
           else (let session1 = session\<lparr>lastProcessed := now e\<rparr>;
                     session2 = (case msg_sampleRate data of
                                   Some r \<Rightarrow> (if r \<noteq> 0 then session1\<lparr>sampleRate := r\<rparr> else session1)
                                 | None \<Rightarrow> session1)
                 in case audio_try e sock data has_ack session2 s of
                      (Inl err, session3, s3) \<Rightarrow>
                        emit sock (Emit ''error'' (ErrorObject ''Error processing audio data'' (Some err)))
                          (put_session (sock_id sock) session3 s3)
                    | (Inr u, session3, s3) \<Rightarrow> put_session (sock_id sock) session3 s3)))"

definition on_process_audio :: "env \<Rightarrow> socket \<Rightarrow> server \<Rightarrow> server" where
  "on_process_audio e sock s =
     (case sessions_get s (sock_id sock) of
        None \<Rightarrow> s
      | Some session \<Rightarrow>
          (if 0 < length (audioChunks session)
           then (case processAudioChunk e sock session s of
                   Inl err \<Rightarrow> s
                 | Inr (session1, s1) \<Rightarrow> put_session (sock_id sock) session1 s1)
           else s))"

text \<open>
  The four control handlers read the session id from the socket object
  (\<^verbatim>\<open>(socket as any).sessionId\<close>), not from the connection handler's \<^verbatim>\<open>sessionId\<close>.
  An absent or empty id is falsy. No code of the repository assigns the property, so
  every socket the server hands to these handlers has \<open>sock_sessionId = None\<close>.
\<close>

definition socket_sessionId :: "socket \<Rightarrow> string option" where
  "socket_sessionId sock =
     (case sock_sessionId sock of
        None \<Rightarrow> None
      | Some sid \<Rightarrow> (if sid = [] then None else Some sid))"

definition reply :: "socket \<Rightarrow> bool \<Rightarrow> response \<Rightarrow> server \<Rightarrow> server" where
  "reply sock has_callback r s = (if has_callback then emit sock (Callback r) s else s)"

definition on_pause :: "socket \<Rightarrow> bool \<Rightarrow> server \<Rightarrow> server" where
  "on_pause sock has_callback s =
     (case socket_sessionId sock of
        None \<Rightarrow> reply sock has_callback (ControlResponse False ''No session ID found'') s
      | Some sessionId \<Rightarrow>
          (case sessions_get s sessionId of
             Some session \<Rightarrow>
               reply sock has_callback (ControlResponse True ''Recording paused'')
                 (put_session sessionId (session\<lparr>isPaused := True\<rparr>) s)
           | None \<Rightarrow> reply sock has_callback (ControlResponse False ''Session not found'') s))"

text \<open>
  The replay loop of \<^verbatim>\<open>resume-recording\<close>: a chunk whose write throws is logged and skipped.
  The loop is taken as one step. In the source each write is awaited after \<^verbatim>\<open>isPaused\<close> has
  been cleared, so the handler of a frame that arrives meanwhile can run between two
  replayed writes. The branch needs a socket that carries a session id; the only
  statements below that reach it are about the stored sample rate, which no write changes.
\<close>

fun replay :: "env \<Rightarrow> buffer list \<Rightarrow> SessionData \<Rightarrow> server \<Rightarrow> SessionData \<times> server" where
  "replay e [] session s = (session, s)"
| "replay e (chunk # chunks) session s =
     (case streamToDisk e session chunk s of
        (r, session1, s1) \<Rightarrow> replay e chunks session1 s1)"

definition on_resume :: "env \<Rightarrow> socket \<Rightarrow> bool \<Rightarrow> server \<Rightarrow> server" where
  "on_resume e sock has_callback s =
     (case socket_sessionId sock of
        None \<Rightarrow> reply sock has_callback (ControlResponse False ''No session ID found'') s
      | Some sessionId \<Rightarrow>
          (case sessions_get s sessionId of
             Some session \<Rightarrow>
               (let session1 = session\<lparr>isPaused := False\<rparr>;
                    replayed = (if 0 < length (pendingChunks session1)
                                then (case replay e (pendingChunks session1) session1 s of
                                        (session2, s2) \<Rightarrow> (session2\<lparr>pendingChunks := []\<rparr>, s2))
                                else (session1, s))
                in reply sock has_callback (ControlResponse True ''Recording resumed'')
                     (put_session sessionId (fst replayed) (snd replayed)))
           | None \<Rightarrow> reply sock has_callback (ControlResponse False ''Session not found'') s))"

definition on_stop :: "env \<Rightarrow> socket \<Rightarrow> bool \<Rightarrow> server \<Rightarrow> server" where
  "on_stop e sock has_callback s =
     (case socket_sessionId sock of
        None \<Rightarrow> reply sock has_callback (StopResponse False ''No session ID found'' None None) s
      | Some sessionId \<Rightarrow>
          (case sessions_get s sessionId of
             None \<Rightarrow> reply sock has_callback (StopResponse False ''Session not found'' None None) s
           | Some session \<Rightarrow>
               (let session1 = session\<lparr>pendingFinalize := True\<rparr>;
                    processed = (if tempFile session1 \<noteq> None
                                 then processAudioChunk e sock session1 s
                                 else Inr (session1, s))
                in case processed of
                     Inr (session2, s2) \<Rightarrow>
                       (let session3 = session2\<lparr>pendingFinalize := False\<rparr>
                        in reply sock has_callback
                             (StopResponse True ''Recording stopped and final chunk processed''
                                (tempFile session3) None)
                             (put_session sessionId session3 s2))
                   | Inl err \<Rightarrow>
                       reply sock has_callback
                         (StopResponse False ''Error stopping recording'' None (Some err))
                         (put_session sessionId session1 s))))"

definition on_disconnect :: "env \<Rightarrow> socket \<Rightarrow> server \<Rightarrow> server" where
  "on_disconnect e sock s =
     (case socket_sessionId sock of
        None \<Rightarrow> s
      | Some sessionId \<Rightarrow>
          (case sessions_get s sessionId of
             None \<Rightarrow> s
           | Some session \<Rightarrow>
               (let processed = (if tempFile session \<noteq> None \<and> \<not> isPaused session
                                 then (case processAudioChunk e sock session s of
                                         Inl err \<Rightarrow> (session, s)
                                       | Inr done \<Rightarrow> done)
                                 else (session, s))
                in cleanupSession sessionId (fst processed)
                     (put_session sessionId (fst processed) (snd processed)))))"

datatype inbound =
    Init InitMsg bool
  | Audio AudioMsg bool
  | ProcessAudio
  | PauseRecording bool
  | ResumeRecording bool
  | StopRecording bool
  | Disconnect

fun handle :: "env \<Rightarrow> socket \<Rightarrow> inbound \<Rightarrow> server \<Rightarrow> server" where
  "handle e sock (Init data cb) s = on_init e sock data cb s"
| "handle e sock (Audio data ack) s = on_audio e sock data ack s"
| "handle e sock ProcessAudio s = on_process_audio e sock s"
| "handle e sock (PauseRecording cb) s = on_pause sock cb s"
| "handle e sock (ResumeRecording cb) s = on_resume e sock cb s"
| "handle e sock (StopRecording cb) s = on_stop e sock cb s"
| "handle e sock Disconnect s = on_disconnect e sock s"

section \<open>The idle timer\<close>

text \<open>
  Once a minute a timer walks the session map and cleans up every session whose
  \<^verbatim>\<open>lastProcessed\<close> is more than five minutes old. \<open>reap\<close> is the body of its loop for one
  entry, \<open>sweep\<close> the loop over the entries in the order given.
\<close>

definition reap :: "env \<Rightarrow> string \<Rightarrow> server \<Rightarrow> server" where
  "reap e sessionId s =
     (case sessions_get s sessionId of
        None \<Rightarrow> s
      | Some session \<Rightarrow>
          (let timeout = 5 * 60 * 1000
           in if now e - lastProcessed session > timeout
              then cleanupSession sessionId session s
              else s))"

definition sweep :: "env \<Rightarrow> string list \<Rightarrow> server \<Rightarrow> server" where
  "sweep e ids s = foldl (\<lambda>s1 sessionId. reap e sessionId s1) s ids"

section \<open>Auxiliary notions for the statements\<close>

text \<open>
  What \<^verbatim>\<open>updateWavHeader\<close> leaves in a file: the two positional writes, with the values
  the code computes.
\<close>

definition header_patched :: "int \<Rightarrow> buffer \<Rightarrow> buffer" where
  "header_patched n file = fd_write (le_bytes 4 n) 40 (fd_write (le_bytes 4 (36 + n - 8)) 4 file)"

text \<open>The header that \<^verbatim>\<open>createWavHeader\<close> builds for one channel of 16-bit PCM.\<close>

definition wav_header :: "int \<Rightarrow> buffer" where
  "wav_header sr =
     ascii ''RIFF'' @ le_bytes 4 36 @ ascii ''WAVE'' @ ascii ''fmt '' @ le_bytes 4 16
     @ le_bytes 2 1 @ le_bytes 2 1 @ le_bytes 4 sr @ le_bytes 4 (2 * sr) @ le_bytes 2 2
     @ le_bytes 2 16 @ ascii ''data'' @ le_bytes 4 0"

text \<open>Counting the calls of the primary service in a trace.\<close>

fun is_primary_call :: "action \<Rightarrow> bool" where
  "is_primary_call (PrimaryCall audio) = True"
| "is_primary_call (FallbackCall audio rate) = False"
| "is_primary_call (Retrying attempt delay) = False"

definition primary_calls :: "action list \<Rightarrow> nat" where
  "primary_calls actions = length (filter is_primary_call actions)"

text \<open>
  The waits in a list of actions, in order, and the runs of actions between them: the
  actions before the first wait, those between the first and the second, and so on.
\<close>

fun waits :: "action list \<Rightarrow> (int \<times> int) list" where
  "waits [] = []"
| "waits (Retrying attempt delay # as) = (attempt, delay) # waits as"
| "waits (PrimaryCall audio # as) = waits as"
| "waits (FallbackCall audio rate # as) = waits as"

fun attempt_runs :: "action list \<Rightarrow> action list list" where
  "attempt_runs [] = [[]]"
| "attempt_runs (Retrying attempt delay # as) = [] # attempt_runs as"
| "attempt_runs (a # as) = (a # hd (attempt_runs as)) # tl (attempt_runs as)"

section \<open>Example inputs\<close>

text \<open>
  A clock reading of 2023, a configured key, a primary service that answers every call
  with a text, a local engine that is down, and \<^verbatim>\<open>Math.random()\<close> returning one half.
\<close>

definition example_env :: env where
  "example_env =
     \<lparr>now = 1700000000000, uuid = ''c0ffee'', GROQ_API_KEY = ''gsk-key'', base64 = (\<lambda>str. []),
      primary = (\<lambda>n audio. OkJson (Some ''hello'')),
      fallback = (\<lambda>n audio. FallbackThrows ''Whisper fallback transcription failed''),
      random = (\<lambda>n. 1 / 2)\<rparr>"

text \<open>The same, with a primary service whose every call fails with a network error.\<close>

definition failing_env :: env where
  "failing_env = example_env\<lparr>primary := (\<lambda>n audio. NetworkError ''socket hang up'')\<rparr>"

definition empty_server :: server where
  "empty_server =
     \<lparr>objects = Map.empty, sessions = {}, disk = Map.empty, streams = {}, emitted = [], trace = []\<rparr>"

text \<open>A socket as the server creates it: no code assigns its \<^verbatim>\<open>sessionId\<close> property.\<close>

definition example_socket :: socket where
  "example_socket = \<lparr>sock_id = ''sock-1'', sock_sessionId = None\<rparr>"

text \<open>A frame that passes the RIFF/WAVE check: twelve signature bytes and n zero bytes.\<close>

definition wav_frame :: "nat \<Rightarrow> int list" where
  "wav_frame n = [82, 73, 70, 70, 0, 0, 0, 0, 87, 65, 86, 69] @ replicate n 0"

text \<open>A server whose disk holds one chunk file: a 16 kHz header and four data bytes.\<close>

definition chunk_server :: server where
  "chunk_server = empty_server\<lparr>disk := [''chunk.wav'' \<mapsto> wav_header 16000 @ [1, 2, 3, 4]]\<rparr>"

text \<open>A session whose chunk file is that file, with its stream open.\<close>

definition chunk_session :: SessionData where
  "chunk_session =
     (fresh_session example_env)\<lparr>tempFile := Some ''chunk.wav'', writeStream := Some ''chunk.wav''\<rparr>"

text \<open>A server whose disk holds a file one byte above \<^verbatim>\<open>MAX_AUDIO_SIZE\<close>.\<close>

definition oversize_server :: server where
  "oversize_server = empty_server\<lparr>disk := [''big.wav'' \<mapsto> replicate 26214401 0]\<rparr>"

text \<open>The data bytes of a submission: what follows the 44-byte header.\<close>

fun submitted_data :: "action \<Rightarrow> buffer" where
  "submitted_data (PrimaryCall audio) = drop 44 audio"
| "submitted_data (FallbackCall audio rate) = drop 44 audio"
| "submitted_data (Retrying attempt delay) = []"

section \<open>The states of a running server\<close>

text \<open>
  From the empty server: sockets connect, their events are handled one after the other,
  and the idle timer fires, each at a clock reading and with services of its own. The
  sockets are the ones the server creates, without a \<^verbatim>\<open>sessionId\<close> property.
\<close>

inductive reachable :: "server \<Rightarrow> bool" where
  reachable_start: "reachable empty_server"
| reachable_connection:
    "reachable s \<Longrightarrow> sock_sessionId sock = None \<Longrightarrow> reachable (connection e sock s)"
| reachable_handle:
    "reachable s \<Longrightarrow> sock_sessionId sock = None \<Longrightarrow> reachable (handle e sock ev s)"
| reachable_sweep: "reachable s \<Longrightarrow> reachable (sweep e ids s)"
section \<open>The WAV size fields\<close>

lemma unat_byte: "unat (of_int (v mod 256) :: 8 word) = nat (v mod 256)"
  by (simp add: unat_eq_nat_uint uint_word_of_int)

lemma length_le_bytes [simp]: "length (le_bytes k v) = k"
  by (induction k arbitrary: v) auto

lemma le_value_le_bytes: "0 \<le> v \<Longrightarrow> le_value (le_bytes k v) = nat (v mod 256 ^ k)"
proof (induction k arbitrary: v)
  case 0
  then show ?case by simp
next
  case (Suc k)
  have nn: "0 \<le> v div 256" using Suc.prems by simp
  have "le_value (le_bytes (Suc k) v) = nat (v mod 256) + 256 * nat ((v div 256) mod 256 ^ k)"
    using Suc.IH [OF nn] by (simp add: unat_byte)
  also have "\<dots> = nat (v mod 256 + 256 * ((v div 256) mod 256 ^ k))"
    by (simp add: nat_add_distrib nat_mult_distrib)
  also have "v mod 256 + 256 * ((v div 256) mod 256 ^ k) = v mod 256 ^ Suc k"
    by (simp add: zmod_zmult2_eq)
  finally show ?case .
qed

lemma le_value_le_bytes_4:
  "0 \<le> v \<Longrightarrow> v < 4294967296 \<Longrightarrow> le_value (le_bytes 4 v) = nat v"
  by (simp add: le_value_le_bytes)

lemma writeUInt32LE_alloc:
  "0 \<le> v \<Longrightarrow> v < 4294967296 \<Longrightarrow> writeUInt32LE v 0 (Buffer_alloc 4) = Inr (le_bytes 4 v)"
  by (simp add: writeUInt32LE_def writeUIntLE_def Buffer_alloc_def)

lemma fd_write_inside:
  "position + length data \<le> length file \<Longrightarrow>
   fd_write data position file = take position file @ data @ drop (position + length data) file"
  by (simp add: fd_write_def Let_def)

lemma length_fd_write:
  "position + length data \<le> length file \<Longrightarrow> length (fd_write data position file) = length file"
  by (simp add: fd_write_inside)

lemma drop_fd_write:
  "position + length data \<le> k \<Longrightarrow> k \<le> length file \<Longrightarrow>
   drop k (fd_write data position file) = drop k file"
  by (simp add: fd_write_inside)

lemma readUInt32LE_fd_write_same:
  "length data = 4 \<Longrightarrow> position + 4 \<le> length file \<Longrightarrow>
   readUInt32LE (fd_write data position file) position = Some (le_value data)"
  by (simp add: fd_write_inside readUInt32LE_def)

lemma readUInt32LE_fd_write_before:
  "length data = 4 \<Longrightarrow> position + 4 \<le> length file \<Longrightarrow> offset + 4 \<le> position \<Longrightarrow>
   readUInt32LE (fd_write data position file) offset = readUInt32LE file offset"
  by (simp add: fd_write_inside readUInt32LE_def take_drop)

text \<open>The header update succeeds whenever both values fit 32 bits.\<close>

lemma updateWavHeader_ok:
  assumes "d f = Some file" "0 \<le> n" "n + 28 < 4294967296"
  shows "updateWavHeader f n d = (Inr (), d(f \<mapsto> header_patched n file))"
  using assms by (simp add: updateWavHeader_def writeUInt32LE_alloc header_patched_def Let_def)

text \<open>
  For every data size n the update stores n at offset 40 and 28 + n at offset 4; the
  length of the file and everything behind the header stay as they are.
\<close>

lemma header_patched_fields:
  assumes "44 \<le> length file" "0 \<le> n" "n + 28 < 4294967296"
  shows "length (header_patched n file) = length file"
    and "drop 44 (header_patched n file) = drop 44 file"
    and "readUInt32LE (header_patched n file) 4 = Some (nat (n + 28))"
    and "readUInt32LE (header_patched n file) 40 = Some (nat n)"
  using assms
  by (simp_all add: header_patched_def length_fd_write drop_fd_write readUInt32LE_fd_write_same
      readUInt32LE_fd_write_before le_value_le_bytes_4)

text \<open>
  Claim C1, at a chunk file with a 44-byte header and n = 4 data bytes. The claim asks for
  36 + 4 = 40 at offset 4 and 4 at offset 40. The code computes
  \<^verbatim>\<open>fileSize = 36 + dataSize\<close> and writes \<^verbatim>\<open>fileSize - 8\<close>: the field at offset 4 holds 32,
  the field at offset 40 holds 4.
\<close>

theorem riff_size_field_is_28_plus_data_size:
  "(case updateWavHeader ''chunk.wav'' 4 [''chunk.wav'' \<mapsto> replicate 44 0 @ [1, 2, 3, 4]] of
      (r, d) \<Rightarrow> (r, Option.bind (d ''chunk.wav'') (\<lambda>file. readUInt32LE file 4),
                    Option.bind (d ''chunk.wav'') (\<lambda>file. readUInt32LE file 40)))
   = (Inr (), Some 32, Some 4)"
  by (simp add: updateWavHeader_ok header_patched_fields)


section \<open>Building the header and appending to the chunk file\<close>

lemma length_ascii [simp]: "length (ascii str) = length str"
  by (simp add: ascii_def)

lemma length_wav_header [simp]: "length (wav_header sr) = 44"
  by (simp add: wav_header_def)

lemma Buffer_write_at:
  "length pre = offset \<Longrightarrow> length str \<le> n \<Longrightarrow>
   Buffer_write str offset (pre @ replicate n 0) = (pre @ ascii str) @ replicate (n - length str) 0"
  by (simp add: Buffer_write_def)

lemma writeUInt32LE_at:
  "length pre = offset \<Longrightarrow> 4 \<le> n \<Longrightarrow> 0 \<le> v \<Longrightarrow> v < 4294967296 \<Longrightarrow>
   writeUInt32LE v offset (pre @ replicate n 0) = Inr ((pre @ le_bytes 4 v) @ replicate (n - 4) 0)"
  by (simp add: writeUInt32LE_def writeUIntLE_def)

lemma writeUInt16LE_at:
  "length pre = offset \<Longrightarrow> 2 \<le> n \<Longrightarrow> 0 \<le> v \<Longrightarrow> v < 65536 \<Longrightarrow>
   writeUInt16LE v offset (pre @ replicate n 0) = Inr ((pre @ le_bytes 2 v) @ replicate (n - 2) 0)"
  by (simp add: writeUInt16LE_def writeUIntLE_def)

lemma writeUInt32LE_range:
  "v < 0 \<or> 4294967296 \<le> v \<Longrightarrow> writeUInt32LE v offset buf = Inl ''ERR_OUT_OF_RANGE''"
  by (auto simp add: writeUInt32LE_def writeUIntLE_def)

text \<open>
  The header of a mono 16-bit file exists exactly when the sample rate and the byte rate
  (twice the sample rate) fit 32 bits; otherwise \<^verbatim>\<open>writeUInt32LE\<close> throws.
\<close>

lemma createWavHeader_mono16:
  "createWavHeader \<lparr>opt_sampleRate = sr, opt_channels = 1, opt_bitDepth = 16, opt_format = 1\<rparr>
   = (if 0 \<le> sr \<and> 2 * sr < 4294967296 then Inr (wav_header sr) else Inl ''ERR_OUT_OF_RANGE'')"
proof -
  define p1 where "p1 = ascii ''RIFF''"
  define p2 where "p2 = p1 @ le_bytes 4 36"
  define p3 where "p3 = p2 @ ascii ''WAVE''"
  define p4 where "p4 = p3 @ ascii ''fmt ''"
  define p5 where "p5 = p4 @ le_bytes 4 16"
  define p6 where "p6 = p5 @ le_bytes 2 1"
  define p7 where "p7 = p6 @ le_bytes 2 1"
  define p8 where "p8 = p7 @ le_bytes 4 sr"
  define p9 where "p9 = p8 @ le_bytes 4 (2 * sr)"
  define p10 where "p10 = p9 @ le_bytes 2 2"
  define p11 where "p11 = p10 @ le_bytes 2 16"
  define p12 where "p12 = p11 @ ascii ''data''"
  define p13 where "p13 = p12 @ le_bytes 4 0"
  have l1: "length p1 = 4" by (simp add: p1_def)
  have l2: "length p2 = 8" by (simp add: p2_def l1)
  have l3: "length p3 = 12" by (simp add: p3_def l2)
  have l4: "length p4 = 16" by (simp add: p4_def l3)
  have l5: "length p5 = 20" by (simp add: p5_def l4)
  have l6: "length p6 = 22" by (simp add: p6_def l5)
  have l7: "length p7 = 24" by (simp add: p7_def l6)
  have l8: "length p8 = 28" by (simp add: p8_def l7)
  have l9: "length p9 = 32" by (simp add: p9_def l8)
  have l10: "length p10 = 34" by (simp add: p10_def l9)
  have l11: "length p11 = 36" by (simp add: p11_def l10)
  have l12: "length p12 = 40" by (simp add: p12_def l11)
  have s1: "Buffer_write ''RIFF'' 0 (Buffer_alloc 44) = p1 @ replicate 40 0"
    using Buffer_write_at [of "[]" 0 "''RIFF''" 44] by (simp add: Buffer_alloc_def p1_def)
  have s2: "writeUInt32LE 36 4 (p1 @ replicate 40 0) = Inr (p2 @ replicate 36 0)"
    using writeUInt32LE_at [of p1 4 40 36] by (simp add: l1 p2_def)
  have s3: "Buffer_write ''WAVE'' 8 (p2 @ replicate 36 0) = p3 @ replicate 32 0"
    using Buffer_write_at [of p2 8 "''WAVE''" 36] by (simp add: l2 p3_def)
  have s4: "Buffer_write ''fmt '' 12 (p3 @ replicate 32 0) = p4 @ replicate 28 0"
    using Buffer_write_at [of p3 12 "''fmt ''" 32] by (simp add: l3 p4_def)
  have s5: "writeUInt32LE 16 16 (p4 @ replicate 28 0) = Inr (p5 @ replicate 24 0)"
    using writeUInt32LE_at [of p4 16 28 16] by (simp add: l4 p5_def)
  have s6: "writeUInt16LE 1 20 (p5 @ replicate 24 0) = Inr (p6 @ replicate 22 0)"
    using writeUInt16LE_at [of p5 20 24 1] by (simp add: l5 p6_def)
  have s7: "writeUInt16LE 1 22 (p6 @ replicate 22 0) = Inr (p7 @ replicate 20 0)"
    using writeUInt16LE_at [of p6 22 22 1] by (simp add: l6 p7_def)
  have s10: "writeUInt16LE 2 32 (p9 @ replicate 12 0) = Inr (p10 @ replicate 10 0)"
    using writeUInt16LE_at [of p9 32 12 2] by (simp add: l9 p10_def)
  have s11: "writeUInt16LE 16 34 (p10 @ replicate 10 0) = Inr (p11 @ replicate 8 0)"
    using writeUInt16LE_at [of p10 34 10 16] by (simp add: l10 p11_def)
  have s12: "Buffer_write ''data'' 36 (p11 @ replicate 8 0) = p12 @ replicate 4 0"
    using Buffer_write_at [of p11 36 "''data''" 8] by (simp add: l11 p12_def)
  have s13: "writeUInt32LE 0 40 (p12 @ replicate 4 0) = Inr p13"
    using writeUInt32LE_at [of p12 40 4 0] by (simp add: l12 p13_def)
  have p13: "p13 = wav_header sr"
    by (simp add: wav_header_def p13_def p12_def p11_def p10_def p9_def p8_def p7_def p6_def
        p5_def p4_def p3_def p2_def p1_def)
  have start: "createWavHeader \<lparr>opt_sampleRate = sr, opt_channels = 1, opt_bitDepth = 16, opt_format = 1\<rparr>
        = bindE (writeUInt32LE sr 24 (p7 @ replicate 20 0)) (\<lambda>b8.
          bindE (writeUInt32LE (2 * sr) 28 b8) (\<lambda>b9.
          bindE (writeUInt16LE 2 32 b9) (\<lambda>b10.
          bindE (writeUInt16LE 16 34 b10) (\<lambda>b11.
          writeUInt32LE 0 40 (Buffer_write ''data'' 36 b11)))))"
    unfolding createWavHeader_def Let_def
    by (simp add: s1 s2 s3 s4 s5 s6 s7 bindE_def del: replicate_Suc)
  consider (low) "sr < 0 \<or> 4294967296 \<le> sr"
    | (mid) "0 \<le> sr" "sr < 4294967296" "4294967296 \<le> 2 * sr"
    | (ok) "0 \<le> sr" "2 * sr < 4294967296"
    by linarith
  then show ?thesis
  proof cases
    case low
    then have "writeUInt32LE sr 24 (p7 @ replicate 20 0) = Inl ''ERR_OUT_OF_RANGE''"
      by (rule writeUInt32LE_range)
    with low show ?thesis by (auto simp add: start bindE_def)
  next
    case mid
    have s8: "writeUInt32LE sr 24 (p7 @ replicate 20 0) = Inr (p8 @ replicate 16 0)"
      using writeUInt32LE_at [of p7 24 20 sr] mid by (simp add: l7 p8_def)
    have "writeUInt32LE (2 * sr) 28 (p8 @ replicate 16 0) = Inl ''ERR_OUT_OF_RANGE''"
      using mid by (intro writeUInt32LE_range) simp
    with mid show ?thesis by (simp add: start s8 bindE_def)
  next
    case ok
    then have sr: "sr < 4294967296" by simp
    have s8: "writeUInt32LE sr 24 (p7 @ replicate 20 0) = Inr (p8 @ replicate 16 0)"
      using writeUInt32LE_at [of p7 24 20 sr] ok sr by (simp add: l7 p8_def)
    have s9: "writeUInt32LE (2 * sr) 28 (p8 @ replicate 16 0) = Inr (p9 @ replicate 12 0)"
      using writeUInt32LE_at [of p8 28 16 "2 * sr"] ok by (simp add: l8 p9_def)
    show ?thesis
      using ok by (simp add: start s8 s9 s10 s11 s12 s13 p13 bindE_def del: replicate_Suc)
  qed
qed

text \<open>The first frame of a chunk creates the file with its header; later frames append.\<close>

lemma streamToDisk_new:
  assumes "tempFile session = None" "0 \<le> sampleRate session"
    "2 * sampleRate session < 4294967296"
  shows "streamToDisk e session audioData s =
     (Inr (Some (join TEMP_DIR (uuid e @ ''.wav''))),
      session\<lparr>tempFile := Some (join TEMP_DIR (uuid e @ ''.wav'')),
              writeStream := Some (join TEMP_DIR (uuid e @ ''.wav''))\<rparr>,
      s\<lparr>disk := (disk s)(join TEMP_DIR (uuid e @ ''.wav'')
                      \<mapsto> wav_header (sampleRate session) @ audioData),
        streams := insert (join TEMP_DIR (uuid e @ ''.wav'')) (streams s)\<rparr>)"
  using assms by (simp add: streamToDisk_def createWavHeader_mono16 Let_def)

lemma streamToDisk_open:
  assumes "tempFile session = Some f" "writeStream session = Some p" "p \<in> streams s"
    "disk s p = Some file"
  shows "streamToDisk e session audioData s =
     (Inr (Some f), session, s\<lparr>disk := (disk s)(p \<mapsto> file @ audioData)\<rparr>)"
  using assms by (simp add: streamToDisk_def Let_def)

text \<open>
  With a sample rate that does not fit the header the first write throws, after the path
  has been stored in the session; every later write finds no stream.
\<close>

lemma streamToDisk_bad_rate:
  assumes "tempFile session = None" "\<not> (0 \<le> sampleRate session \<and> 2 * sampleRate session < 4294967296)"
  shows "streamToDisk e session audioData s =
     (Inl ''ERR_OUT_OF_RANGE'', session\<lparr>tempFile := Some (join TEMP_DIR (uuid e @ ''.wav''))\<rparr>, s)"
  using assms by (simp add: streamToDisk_def createWavHeader_mono16 Let_def)

lemma streamToDisk_no_stream:
  assumes "tempFile session = Some f" "writeStream session = None"
  shows "streamToDisk e session audioData s = (Inl ''Write stream not initialized'', session, s)"
  using assms by (simp add: streamToDisk_def Let_def)


section \<open>Double arithmetic\<close>

text \<open>Rounding to a double moves a number by at most one part in \<open>2 ^ 53\<close>.\<close>

lemma round_half_even_error: "\<bar>of_int (round_half_even y) - y\<bar> \<le> 1 / 2"
proof -
  have "of_int \<lfloor>y\<rfloor> \<le> y" "y < of_int \<lfloor>y\<rfloor> + 1" by linarith+
  then show ?thesis
    by (auto simp add: round_half_even_def Let_def)
qed

lemma binary_exponent_bounds:
  assumes "0 < x"
  shows "2 powi (binary_exponent x) \<le> x" "x < 2 powi (binary_exponent x + 1)"
proof -
  obtain p q where pq: "quotient_of x = (p, q)" by (cases "quotient_of x") auto
  then have q: "0 < q" and x: "x = of_int p / of_int q"
    using quotient_of_denom_pos [OF pq] quotient_of_div [OF pq] by simp_all
  from assms q have p: "0 < p" by (simp add: x zero_less_divide_iff)
  define n where "n = bitlen p"
  define m where "m = bitlen q"
  have n1: "1 \<le> n" and m1: "1 \<le> m"
    using p q bitlen_eq_zero_iff [of p] bitlen_eq_zero_iff [of q] bitlen_nonneg [of p] bitlen_nonneg [of q]
    by (simp_all add: n_def m_def)
  have pb: "2 ^ nat (n - 1) \<le> p" "p < 2 ^ nat n" using bitlen_bounds [OF p] by (simp_all add: n_def)
  have qb: "2 ^ nat (m - 1) \<le> q" "q < 2 ^ nat m" using bitlen_bounds [OF q] by (simp_all add: m_def)
  have pr: "(2::rat) powi (n - 1) \<le> of_int p" "(of_int p :: rat) < 2 powi n"
  proof -
    have "(of_int (2 ^ nat (n - 1)) :: rat) \<le> of_int p" using pb(1) by (simp only: of_int_le_iff)
    then show "(2::rat) powi (n - 1) \<le> of_int p" using n1 by (simp add: power_int_def)
    have "(of_int p :: rat) < of_int (2 ^ nat n)" using pb(2) by (simp only: of_int_less_iff)
    then show "(of_int p :: rat) < 2 powi n" using n1 by (simp add: power_int_def)
  qed
  have qr: "(2::rat) powi (m - 1) \<le> of_int q" "(of_int q :: rat) < 2 powi m"
  proof -
    have "(of_int (2 ^ nat (m - 1)) :: rat) \<le> of_int q" using qb(1) by (simp only: of_int_le_iff)
    then show "(2::rat) powi (m - 1) \<le> of_int q" using m1 by (simp add: power_int_def)
    have "(of_int q :: rat) < of_int (2 ^ nat m)" using qb(2) by (simp only: of_int_less_iff)
    then show "(of_int q :: rat) < 2 powi m" using m1 by (simp add: power_int_def)
  qed
  have qpos: "(0::rat) < of_int q" using q by simp
  have lower: "(2::rat) powi (n - m - 1) \<le> x"
  proof -
    have "(2::rat) powi (n - m - 1) * of_int q \<le> 2 powi (n - m - 1) * 2 powi m"
      using qr(2) by (intro mult_left_mono) simp_all
    also have "\<dots> = 2 powi (n - 1)" by (simp flip: power_int_add)
    also have "\<dots> \<le> of_int p" by (rule pr(1))
    finally show ?thesis using qpos by (simp add: x pos_le_divide_eq)
  qed
  have upper: "x < (2::rat) powi (n - m + 1)"
  proof -
    have "(of_int p :: rat) < 2 powi n" by (rule pr(2))
    also have "\<dots> = 2 powi (n - m + 1) * 2 powi (m - 1)" by (simp flip: power_int_add)
    also have "\<dots> \<le> 2 powi (n - m + 1) * of_int q"
      using qr(1) by (intro mult_left_mono) simp_all
    finally show ?thesis using qpos by (simp add: x pos_divide_less_eq)
  qed
  have be: "binary_exponent x = (if 2 powi (n - m) \<le> x then n - m else n - m - 1)"
    by (simp add: binary_exponent_def pq n_def m_def Let_def)
  show "2 powi (binary_exponent x) \<le> x" using lower by (simp add: be)
  show "x < 2 powi (binary_exponent x + 1)" using upper by (auto simp add: be not_le)
qed

lemma binary_exponent_eq:
  assumes "2 powi b \<le> x" "x < 2 powi (b + 1)"
  shows "binary_exponent x = b"
proof -
  have pos: "0 < x" using assms(1) zero_less_power_int [of "2::rat" b] by linarith
  note be = binary_exponent_bounds [OF pos]
  have "(2::rat) powi b < 2 powi (binary_exponent x + 1)" using assms(1) be(2) by linarith
  then have 1: "b < binary_exponent x + 1"
    using power_int_increasing [of "binary_exponent x + 1" b "2::rat"] by (cases "b < binary_exponent x + 1") auto
  have "(2::rat) powi (binary_exponent x) < 2 powi (b + 1)" using assms(2) be(1) by linarith
  then have 2: "binary_exponent x < b + 1"
    using power_int_increasing [of "b + 1" "binary_exponent x" "2::rat"] by (cases "binary_exponent x < b + 1") auto
  from 1 2 show ?thesis by simp
qed

lemma float64_at:
  assumes "2 powi b \<le> x" "x < 2 powi (b + 1)"
  shows "float64 x = of_int (round_half_even (x / 2 powi (b - 52))) * 2 powi (b - 52)"
proof -
  have pos: "0 < x" using assms(1) zero_less_power_int [of "2::rat" b] by linarith
  then show ?thesis by (simp add: float64_def binary_exponent_eq [OF assms] Let_def)
qed

lemma float64_error:
  assumes "0 \<le> x" "x \<le> c"
  shows "\<bar>float64 x - x\<bar> \<le> c / 2 ^ 53"
proof (cases "x = 0")
  case True
  with assms show ?thesis by (simp add: float64_def)
next
  case False
  with assms have pos: "0 < x" by simp
  define b where "b = binary_exponent x"
  define ulp :: rat where "ulp = 2 powi (b - 52)"
  have u: "0 < ulp" by (simp add: ulp_def)
  have fx: "float64 x = of_int (round_half_even (x / ulp)) * ulp"
    using pos by (simp add: float64_def Let_def ulp_def b_def)
  have "float64 x - x = (of_int (round_half_even (x / ulp)) - x / ulp) * ulp"
    using u by (simp add: fx left_diff_distrib)
  then have "\<bar>float64 x - x\<bar> = \<bar>of_int (round_half_even (x / ulp)) - x / ulp\<bar> * ulp"
    using u by (simp add: abs_mult)
  also have "\<dots> \<le> 1 / 2 * ulp"
    using u round_half_even_error [of "x / ulp"] by (intro mult_right_mono) simp_all
  also have "\<dots> = 2 powi b / 2 ^ 53"
  proof -
    have "(2::rat) powi ((b - 52) + 52) = 2 powi (b - 52) * 2 powi 52"
      by (rule power_int_add) simp
    then have "(2::rat) powi b = ulp * 2 ^ 52" by (simp add: ulp_def)
    then show ?thesis by simp
  qed
  also have "\<dots> \<le> x / 2 ^ 53"
    using binary_exponent_bounds(1) [OF pos] by (simp add: b_def divide_right_mono)
  also have "\<dots> \<le> c / 2 ^ 53" using assms(2) by (simp add: divide_right_mono)
  finally show ?thesis .
qed

text \<open>The doubles of a backoff in which \<^verbatim>\<open>Math.random()\<close> returns one half.\<close>

lemma floor_numeral_quotient:
  "\<lfloor>(numeral a :: rat) / numeral b\<rfloor> = numeral a div numeral b"
  using floor_divide_of_int_eq [of "numeral a" "numeral b", where ?'a = rat] by simp

lemma float64_two_fifths: "float64 (2 / 5) = 7205759403792794 / 2 ^ 54"
  by (subst float64_at [of "- 2"]) (simp_all add: round_half_even_def Let_def floor_numeral_quotient)

lemma float64_four_fifths: "float64 (4 / 5) = 7205759403792794 / 2 ^ 53"
  by (subst float64_at [of "- 1"]) (simp_all add: round_half_even_def Let_def floor_numeral_quotient)

lemma float64_fifth: "float64 (1 / 2 * (7205759403792794 / 2 ^ 54)) = 7205759403792794 / 2 ^ 55"
  by (subst float64_at [of "- 3"]) (simp_all add: round_half_even_def Let_def floor_numeral_quotient)

lemma float64_sum: "float64 (7205759403792794 / 2 ^ 53 + 7205759403792794 / 2 ^ 55) = 1"
  by (subst float64_at [of 0]) (simp_all add: round_half_even_def Let_def floor_numeral_quotient)

lemma float64_1000: "float64 1000 = 1000"
  by (subst float64_at [of 9]) (simp_all add: round_half_even_def Let_def floor_numeral_quotient)

lemma float64_2000: "float64 2000 = 2000"
  by (subst float64_at [of 10]) (simp_all add: round_half_even_def Let_def floor_numeral_quotient)

lemma backoff_delay_half: "backoff_delay 1 (1 / 2) = 1000" "backoff_delay 2 (1 / 2) = 2000"
  by (simp_all only: backoff_delay_def Let_def float64_two_fifths float64_fifth float64_four_fifths
      float64_sum)
    (simp_all add: RETRY_DELAY_MS_def float64_1000 float64_2000)

text \<open>
  The sum of the two literals alone is the double above 1.2, which JavaScript prints as
  \<^verbatim>\<open>1.2000000000000002\<close>: the exact sum lies halfway between two doubles and goes to the
  even one.
\<close>

lemma float64_sum_of_literals: "float64 (float64 (4 / 5) + float64 (2 / 5)) = 5404319552844596 / 2 ^ 52"
  unfolding float64_two_fifths float64_four_fifths
  by (subst float64_at [of 0]) (simp_all add: round_half_even_def Let_def floor_numeral_quotient)

section \<open>Attempts, retries and the fallback\<close>

lemma primary_calls_simps [simp]:
  "primary_calls [] = 0"
  "primary_calls (PrimaryCall audio # as) = Suc (primary_calls as)"
  "primary_calls (FallbackCall audio rate # as) = primary_calls as"
  "primary_calls (Retrying n d # as) = primary_calls as"
  "primary_calls (as @ bs) = primary_calls as + primary_calls bs"
  by (simp_all add: primary_calls_def)

text \<open>One attempt: the exact calls it makes, and its result.\<close>

lemma primary_attempt_eq:
  "primary_attempt e audioPath s =
     (case disk s audioPath of
        None \<Rightarrow> (Inl ''File not found or not readable'', s)
      | Some audio \<Rightarrow>
          (if MAX_AUDIO_SIZE < length audio
           then (Inl (''Audio file too large ('' @ show_nat (length audio) @ '' > ''
                        @ show_nat MAX_AUDIO_SIZE @ '' bytes)''), s)
           else (case primary e (length (trace s)) audio of
                   OkJson (Some text) \<Rightarrow> Inr text
                 | OkJson None \<Rightarrow> Inl ''Invalid response format from Groq API''
                 | NetworkError m \<Rightarrow> Inl m
                 | HttpError status m1 m2 \<Rightarrow> Inl (http_error_message status m1 m2)
                 | BadJson m \<Rightarrow> Inl m,
                 s\<lparr>trace := trace s @ [PrimaryCall audio]\<rparr>)))"
  by (simp add: primary_attempt_def record_action_def Let_def
      split: option.splits http_response.splits)

lemma primary_attempt_trace:
  "\<exists>r new. primary_attempt e audioPath s = (r, s\<lparr>trace := trace s @ new\<rparr>)
     \<and> (new = [] \<or> (\<exists>audio. new = [PrimaryCall audio]))"
proof (cases "disk s audioPath")
  case None
  then have "primary_attempt e audioPath s
      = (Inl ''File not found or not readable'', s\<lparr>trace := trace s @ []\<rparr>)"
    by (simp add: primary_attempt_eq)
  then show ?thesis by blast
next
  case (Some audio)
  show ?thesis
  proof (cases "MAX_AUDIO_SIZE < length audio")
    case True
    with Some have "\<exists>r. primary_attempt e audioPath s = (r, s\<lparr>trace := trace s @ []\<rparr>)"
      by (simp add: primary_attempt_eq)
    then show ?thesis by blast
  next
    case False
    with Some have "\<exists>r. primary_attempt e audioPath s
        = (r, s\<lparr>trace := trace s @ [PrimaryCall audio]\<rparr>)"
      by (simp add: primary_attempt_eq)
    then show ?thesis by blast
  qed
qed

lemma fallback_attempt_trace:
  "\<exists>r new. fallback_attempt e audioPath s = (r, s\<lparr>trace := trace s @ new\<rparr>)
     \<and> (new = [] \<or> (\<exists>audio. new = [FallbackCall audio 16000]))"
proof (cases "disk s audioPath")
  case None
  then have "fallback_attempt e audioPath s = (None, s\<lparr>trace := trace s @ []\<rparr>)"
    by (simp add: fallback_attempt_def)
  then show ?thesis by blast
next
  case (Some audio)
  then have "\<exists>r. fallback_attempt e audioPath s
      = (r, s\<lparr>trace := trace s @ [FallbackCall audio 16000]\<rparr>)"
    by (simp add: fallback_attempt_def record_action_def Let_def split: fallback_result.splits)
  then show ?thesis by blast
qed

lemma transcribeAudio_trace:
  "\<exists>new r. transcribeAudio e audioPath s = (r, s\<lparr>trace := trace s @ new\<rparr>)
     \<and> primary_calls new \<le> 1 \<and> (\<forall>n d. Retrying n d \<notin> set new)"
proof -
  obtain r1 new1 where p: "primary_attempt e audioPath s = (r1, s\<lparr>trace := trace s @ new1\<rparr>)"
    and n1: "new1 = [] \<or> (\<exists>audio. new1 = [PrimaryCall audio])"
    using primary_attempt_trace by blast
  obtain r2 new2 where f: "fallback_attempt e audioPath (s\<lparr>trace := trace s @ new1\<rparr>)
        = (r2, s\<lparr>trace := trace s @ new1, trace := (trace s @ new1) @ new2\<rparr>)"
    and n2: "new2 = [] \<or> (\<exists>audio. new2 = [FallbackCall audio 16000])"
    using fallback_attempt_trace [of e audioPath "s\<lparr>trace := trace s @ new1\<rparr>"] by auto
  show ?thesis
  proof (cases "GROQ_API_KEY e = []")
    case True
    then have "transcribeAudio e audioPath s
        = (Inl ''Groq API key not configured'', s\<lparr>trace := trace s @ []\<rparr>)"
      by (simp add: transcribeAudio_def)
    then show ?thesis by (intro exI [of _ "[]"]) auto
  next
    case False
    show ?thesis
    proof (cases r1)
      case (Inr result)
      with False p have "transcribeAudio e audioPath s = (Inr result, s\<lparr>trace := trace s @ new1\<rparr>)"
        by (simp add: transcribeAudio_def)
      with n1 show ?thesis by (intro exI [of _ new1]) auto
    next
      case (Inl err)
      with False p f have "\<exists>r. transcribeAudio e audioPath s = (r, s\<lparr>trace := trace s @ (new1 @ new2)\<rparr>)"
        by (cases r2) (simp_all add: transcribeAudio_def)
      with n1 n2 show ?thesis by (intro exI [of _ "new1 @ new2"]) auto
    qed
  qed
qed

text \<open>The loop, from any attempt on: what it adds to the trace.\<close>

lemma retry_loop_trace:
  "\<exists>new r. retry_loop e audioPath maxRetries attempt lastError s = (r, s\<lparr>trace := trace s @ new\<rparr>)
     \<and> primary_calls new \<le> nat (maxRetries + 1 - attempt)
     \<and> (\<forall>n d. Retrying n d \<in> set new \<longrightarrow>
            attempt \<le> n \<and> n < maxRetries \<and> (\<exists>k. d = backoff_delay n (random e k)))"
proof (induction e audioPath maxRetries attempt lastError s rule: retry_loop.induct)
  case (1 e audioPath maxRetries attempt lastError s)
  show ?case
  proof (cases "attempt \<le> maxRetries")
    case False
    then have "\<exists>r. retry_loop e audioPath maxRetries attempt lastError s = (r, s\<lparr>trace := trace s @ []\<rparr>)"
      by (simp add: retry_loop.simps)
    then show ?thesis by (intro exI [of _ "[]"]) auto
  next
    case True
    obtain new1 r1 where t: "transcribeAudio e audioPath s = (r1, s\<lparr>trace := trace s @ new1\<rparr>)"
      and c1: "primary_calls new1 \<le> 1" and d1: "\<forall>n d. Retrying n d \<notin> set new1"
      using transcribeAudio_trace by blast
    define s1 where "s1 = s\<lparr>trace := trace s @ new1\<rparr>"
    show ?thesis
    proof (cases r1)
      case (Inr result)
      with True t have "retry_loop e audioPath maxRetries attempt lastError s
          = (Inr result, s\<lparr>trace := trace s @ new1\<rparr>)"
        by (simp add: retry_loop.simps)
      with c1 d1 True show ?thesis by (intro exI [of _ new1]) auto
    next
      case (Inl err)
      show ?thesis
      proof (cases "nonRetryable err")
        case nr: True
        with Inl True t have "retry_loop e audioPath maxRetries attempt lastError s
            = (Inl err, s\<lparr>trace := trace s @ new1\<rparr>)"
          by (simp add: retry_loop.simps)
        with c1 d1 True show ?thesis by (intro exI [of _ new1]) auto
      next
        case False
        define new2 where "new2 = (if attempt < maxRetries
            then [Retrying attempt (backoff_delay attempt (random e (length (trace s1))))] else [])"
        define s2 where "s2 = (if attempt < maxRetries
            then record_action (Retrying attempt (backoff_delay attempt (random e (length (trace s1))))) s1
            else s1)"
        have s2: "s2 = s\<lparr>trace := trace s @ (new1 @ new2)\<rparr>"
          by (simp add: s2_def new2_def s1_def record_action_def)
        have step: "retry_loop e audioPath maxRetries attempt lastError s
            = retry_loop e audioPath maxRetries (attempt + 1) (Some err) s2"
          using True Inl False t
          by (subst retry_loop.simps) (simp add: s2_def s1_def Let_def)
        from "1.IH" [OF True t [symmetric] Inl False s2_def [unfolded s1_def]]
        obtain new3 r3 where
          r: "retry_loop e audioPath maxRetries (attempt + 1) (Some err) s2
                = (r3, s2\<lparr>trace := trace s2 @ new3\<rparr>)"
          and c3: "primary_calls new3 \<le> nat (maxRetries + 1 - (attempt + 1))"
          and d3: "\<forall>n d. Retrying n d \<in> set new3 \<longrightarrow>
                attempt + 1 \<le> n \<and> n < maxRetries \<and> (\<exists>k. d = backoff_delay n (random e k))"
          by blast
        have "retry_loop e audioPath maxRetries attempt lastError s
            = (r3, s\<lparr>trace := trace s @ (new1 @ new2 @ new3)\<rparr>)"
          using r [unfolded s2] by (simp add: step s2)
        moreover have "primary_calls (new1 @ new2 @ new3) \<le> nat (maxRetries + 1 - attempt)"
        proof -
          have "primary_calls new2 = 0" by (simp add: new2_def)
          moreover have "1 + nat (maxRetries + 1 - (attempt + 1)) = nat (maxRetries + 1 - attempt)"
            using True by linarith
          ultimately show ?thesis using c1 c3 by simp
        qed
        moreover have "\<forall>n d. Retrying n d \<in> set (new1 @ new2 @ new3) \<longrightarrow>
            attempt \<le> n \<and> n < maxRetries \<and> (\<exists>k. d = backoff_delay n (random e k))"
        proof (intro allI impI)
          fix n d
          assume "Retrying n d \<in> set (new1 @ new2 @ new3)"
          then consider "Retrying n d \<in> set new2" | "Retrying n d \<in> set new3"
            using d1 by auto
          then show "attempt \<le> n \<and> n < maxRetries \<and> (\<exists>k. d = backoff_delay n (random e k))"
          proof cases
            case 1
            then show ?thesis by (auto simp add: new2_def split: if_splits)
          next
            case 2
            with d3 have "attempt + 1 \<le> n \<and> n < maxRetries \<and> (\<exists>k. d = backoff_delay n (random e k))"
              by blast
            then show ?thesis by auto
          qed
        qed
        ultimately show ?thesis by blast
      qed
    qed
  qed
qed

text \<open>The equations that evaluate a run of the retry loop.\<close>

lemmas run_simps = transcribeWithRetry_def retry_loop.simps transcribeAudio_def primary_attempt_def
  fallback_attempt_def record_action_def nonRetryable_def nonRetryableErrors_def backoff_delay_half
  MAX_RETRIES_def MAX_AUDIO_SIZE_def RETRY_DELAY_MS_def Let_def

section \<open>What processing a chunk changes\<close>

lemma updateWavHeader_too_big:
  assumes "d f = Some file" "4294967296 \<le> n + 28"
  shows "updateWavHeader f n d = (Inl ''ERR_OUT_OF_RANGE'', d)"
  using assms by (simp add: updateWavHeader_def writeUInt32LE_range Let_def)

lemma transcribeWithRetry_trace:
  "\<exists>new r. transcribeWithRetry e audioPath maxRetries s = (r, s\<lparr>trace := trace s @ new\<rparr>)"
  using retry_loop_trace [of e audioPath "if maxRetries \<le> 0 then 1 else maxRetries" 1 None s]
  unfolding transcribeWithRetry_def by blast

text \<open>After the size check: the header is patched, then the retries run on the patched file.\<close>

lemma processAudioChunk_try_patched:
  assumes "disk s f = Some file" "44 \<le> length file" "int (length file) < 4294967312"
  shows "processAudioChunk_try e sock f session s =
     (case transcribeWithRetry e f MAX_RETRIES
             (s\<lparr>disk := (disk s)(f \<mapsto> header_patched (int (length file) - 44) file)\<rparr>) of
        (Inl err, s2) \<Rightarrow> (Inl err, session, s2)
      | (Inr transcript, s2) \<Rightarrow>
          (if transcript \<noteq> []
           then (Inr (), session\<lparr>lastProcessed := now e\<rparr>,
                 emit sock (Emit ''transcript'' (TranscriptEvent transcript True ''groq'')) s2)
           else (Inl ''Received empty transcription result'', session, s2)))"
  using assms by (simp add: processAudioChunk_try_def updateWavHeader_ok Let_def)

lemma processAudioChunk_try_frame:
  "\<exists>lp d' new evs r. processAudioChunk_try e sock f session s =
       (r, session\<lparr>lastProcessed := lp\<rparr>,
        s\<lparr>disk := d', trace := trace s @ new, emitted := emitted s @ evs\<rparr>)
     \<and> (d' = disk s \<or> (\<exists>file. disk s f = Some file \<and> 44 \<le> length file
            \<and> int (length file) < 4294967312
            \<and> d' = (disk s)(f \<mapsto> header_patched (int (length file) - 44) file)))"
proof -
  have same: "\<And>r. \<exists>lp d' new evs r'. (r, session, s) =
       (r', session\<lparr>lastProcessed := lp\<rparr>,
        s\<lparr>disk := d', trace := trace s @ new, emitted := emitted s @ evs\<rparr>) \<and> d' = disk s"
    by (intro exI [of _ "lastProcessed session"] exI [of _ "disk s"] exI [of _ "[]"]) simp
  show ?thesis
  proof (cases "disk s f")
    case None
    then have "processAudioChunk_try e sock f session s = (Inl ''ENOENT'', session, s)"
      by (simp add: processAudioChunk_try_def)
    with same show ?thesis by metis
  next
    case (Some bytes)
    consider (small) "length bytes < 44" | (big) "44 \<le> length bytes" "4294967312 \<le> int (length bytes)"
      | (ok) "44 \<le> length bytes" "int (length bytes) < 4294967312"
      by linarith
    then show ?thesis
    proof cases
      case small
      with Some have "\<exists>r. processAudioChunk_try e sock f session s = (r, session, s)"
        by (simp add: processAudioChunk_try_def Let_def)
      with same show ?thesis by metis
    next
      case big
      with Some have "processAudioChunk_try e sock f session s = (Inl ''ERR_OUT_OF_RANGE'', session, s)"
        by (simp add: processAudioChunk_try_def Let_def updateWavHeader_too_big)
      with same show ?thesis by metis
    next
      case ok
      define d' where "d' = (disk s)(f \<mapsto> header_patched (int (length bytes) - 44) bytes)"
      obtain new r where run: "transcribeWithRetry e f MAX_RETRIES (s\<lparr>disk := d'\<rparr>)
          = (r, s\<lparr>disk := d', trace := trace s @ new\<rparr>)"
        using transcribeWithRetry_trace [of e f MAX_RETRIES "s\<lparr>disk := d'\<rparr>"] by auto
      have "\<exists>lp evs r'. processAudioChunk_try e sock f session s =
         (r', session\<lparr>lastProcessed := lp\<rparr>,
          s\<lparr>disk := d', trace := trace s @ new, emitted := emitted s @ evs\<rparr>)"
      proof (cases r)
        case (Inl err)
        then have "processAudioChunk_try e sock f session s
            = (Inl err, session\<lparr>lastProcessed := lastProcessed session\<rparr>,
               s\<lparr>disk := d', trace := trace s @ new, emitted := emitted s @ []\<rparr>)"
          using Some ok run by (simp add: processAudioChunk_try_patched d'_def)
        then show ?thesis by blast
      next
        case (Inr transcript)
        show ?thesis
        proof (cases "transcript = []")
          case True
          then have "processAudioChunk_try e sock f session s
              = (Inl ''Received empty transcription result'', session\<lparr>lastProcessed := lastProcessed session\<rparr>,
                 s\<lparr>disk := d', trace := trace s @ new, emitted := emitted s @ []\<rparr>)"
            using Some ok run Inr by (simp add: processAudioChunk_try_patched d'_def)
          then show ?thesis by blast
        next
          case False
          then have "processAudioChunk_try e sock f session s
              = (Inr (), session\<lparr>lastProcessed := now e\<rparr>,
                 s\<lparr>disk := d', trace := trace s @ new,
                   emitted := emitted s @ [(sock_id sock, Emit ''transcript'' (TranscriptEvent transcript True ''groq''))]\<rparr>)"
            using Some ok run Inr by (simp add: processAudioChunk_try_patched d'_def emit_def)
          then show ?thesis by blast
        qed
      qed
      with Some ok show ?thesis unfolding d'_def by blast
    qed
  qed
qed

lemma processAudioChunk_frame:
  assumes "processAudioChunk e sock session s = Inr (session', s')"
  shows "\<exists>f lp d' new evs. tempFile session = Some f
     \<and> session' = session\<lparr>lastProcessed := lp\<rparr>
     \<and> s' = s\<lparr>disk := d', trace := trace s @ new, emitted := emitted s @ evs\<rparr>
     \<and> (d' = disk s \<or> (\<exists>file. disk s f = Some file \<and> 44 \<le> length file
            \<and> int (length file) < 4294967312
            \<and> d' = (disk s)(f \<mapsto> header_patched (int (length file) - 44) file)))"
proof -
  from assms obtain f where f: "tempFile session = Some f"
    by (cases "tempFile session") (simp_all add: processAudioChunk_def)
  obtain lp d' new evs r where t: "processAudioChunk_try e sock f session s =
       (r, session\<lparr>lastProcessed := lp\<rparr>,
        s\<lparr>disk := d', trace := trace s @ new, emitted := emitted s @ evs\<rparr>)"
    and d: "d' = disk s \<or> (\<exists>file. disk s f = Some file \<and> 44 \<le> length file
            \<and> int (length file) < 4294967312
            \<and> d' = (disk s)(f \<mapsto> header_patched (int (length file) - 44) file))"
    using processAudioChunk_try_frame by blast
  show ?thesis
  proof (cases r)
    case (Inl err)
    with assms f t have "session' = session\<lparr>lastProcessed := lp\<rparr>"
      and "s' = s\<lparr>disk := d', trace := trace s @ new,
              emitted := emitted s @ (evs @ [(sock_id sock, Emit ''error'' (ErrorString ''Failed to process audio''))])\<rparr>"
      by (simp_all add: processAudioChunk_def emit_def)
    with f d show ?thesis by blast
  next
    case (Inr u)
    with assms f t have "session' = session\<lparr>lastProcessed := lp\<rparr>"
      and "s' = s\<lparr>disk := d', trace := trace s @ new, emitted := emitted s @ evs\<rparr>"
      by (simp_all add: processAudioChunk_def)
    with f d show ?thesis by blast
  qed
qed

section \<open>The readiness check and the audio handler\<close>

lemma isWav_wav_frame: "isWav (Buffer_from (wav_frame (Suc n)))"
  by (simp add: isWav_def Buffer_from_def wav_frame_def toString_ascii_def ascii_def)

lemma length_wav_frame [simp]: "length (Buffer_from (wav_frame n)) = 12 + n"
  by (simp add: Buffer_from_def wav_frame_def)

lemma length_wav_frame_ints [simp]: "length (wav_frame n) = 12 + n"
  by (simp add: wav_frame_def)

text \<open>The readiness check in integers: the minimum is as many bytes as the sample rate.\<close>

lemma shouldProcessChunk_eq:
  assumes "tempFile session = Some f" "d f = Some content"
  shows "shouldProcessChunk e session audioData d =
     (sampleRate session \<le> int (length content)
      \<or> (lastProcessed session = 0 \<and> content \<noteq> [])
      \<or> pendingFinalize session)"
proof -
  have "((of_int (sampleRate session * 2) :: rat) * (1 / 2) \<le> of_nat (length content))
      = (sampleRate session \<le> int (length content))"
  proof -
    have "(of_int (sampleRate session * 2) :: rat) * (1 / 2) = of_int (sampleRate session)" by simp
    moreover have "(of_nat (length content) :: rat) = of_int (int (length content))" by simp
    ultimately show ?thesis by (simp only: of_int_le_iff)
  qed
  then show ?thesis using assms by (simp add: shouldProcessChunk_def Let_def)
qed

lemma processAudioChunk_hello:
  assumes "tempFile session = Some f" "disk s f = Some content" "44 \<le> length content"
    "length content \<le> MAX_AUDIO_SIZE"
  shows "processAudioChunk example_env sock session s =
     Inr (session\<lparr>lastProcessed := 1700000000000\<rparr>,
          s\<lparr>disk := (disk s)(f \<mapsto> header_patched (int (length content) - 44) content),
            trace := trace s @ [PrimaryCall (header_patched (int (length content) - 44) content)],
            emitted := emitted s
              @ [(sock_id sock, Emit ''transcript'' (TranscriptEvent ''hello'' True ''groq''))]\<rparr>)"
proof -
  have small: "int (length content) < 4294967312"
    using assms(4) by (simp add: MAX_AUDIO_SIZE_def)
  have len: "length (header_patched (int (length content) - 44) content) = length content"
    using assms(3) small by (simp add: header_patched_fields)
  show ?thesis
    using assms len
    by (simp add: processAudioChunk_def processAudioChunk_try_patched [OF assms(2,3) small]
        run_simps example_env_def emit_def)
qed

lemma on_audio_recording:
  assumes "sessions_get s (sock_id sock) = Some session" "\<not> isPaused session"
  shows "on_audio e sock data has_ack s =
     (case audio_try e sock data has_ack
             (session\<lparr>lastProcessed := now e,
                      sampleRate := (case msg_sampleRate data of
                                       Some r \<Rightarrow> (if r \<noteq> 0 then r else sampleRate session)
                                     | None \<Rightarrow> sampleRate session)\<rparr>) s of
        (Inl err, session3, s3) \<Rightarrow>
          emit sock (Emit ''error'' (ErrorObject ''Error processing audio data'' (Some err)))
            (put_session (sock_id sock) session3 s3)
      | (Inr u, session3, s3) \<Rightarrow> put_session (sock_id sock) session3 s3)"
  using assms by (simp add: on_audio_def Let_def split: option.splits)

lemma sessions_get_connection:
  "sessions_get (connection e sock s) (sock_id sock) = Some (fresh_session e)"
  by (simp add: sessions_get_def connection_def)

text \<open>
  Claim C6, at the first frame of a session: 3000 bytes at 16 kHz. The readiness check is
  asked after the frame has been written, so the temp file exists and holds 3044 bytes,
  less than the 16000 that make 500 ms. The first-chunk clause
  \<^verbatim>\<open>session.lastProcessed === 0\<close> never holds, since the connection handler and the audio
  handler both set \<^verbatim>\<open>lastProcessed\<close> to \<^verbatim>\<open>Date.now()\<close>. The check answers false and nothing
  is submitted.
\<close>

theorem first_small_chunk_is_not_flushed:
  "(let s1 = connection example_env example_socket empty_server;
        s2 = on_audio example_env example_socket
               \<lparr>msg_data = Arr (wav_frame 2988), msg_format = Some ''wav'', msg_sampleRate = Some 16000\<rparr>
               True s1
    in (trace s2, emitted s2,
        map_option (\<lambda>session. shouldProcessChunk example_env session (Buffer_from (wav_frame 2988)) (disk s2))
          (sessions_get s2 ''sock-1'')))
   = ([], [(''sock-1'', Callback (AudioAck ''received'' 3000))], Some False)"
proof -
  define session0 where "session0 = (fresh_session example_env)\<lparr>lastProcessed := now example_env, sampleRate := 16000\<rparr>"
  define path where "path = join TEMP_DIR (uuid example_env @ ''.wav'')"
  define session1 where "session1 = session0\<lparr>tempFile := Some path, writeStream := Some path\<rparr>"
  define content where "content = wav_header 16000 @ Buffer_from (wav_frame 2988)"
  have stream: "streamToDisk example_env session0 (Buffer_from (wav_frame 2988)) s =
     (Inr (Some path), session1, s\<lparr>disk := (disk s)(path \<mapsto> content), streams := insert path (streams s)\<rparr>)" for s
    using streamToDisk_new [of session0 example_env "Buffer_from (wav_frame 2988)" s]
    by (simp add: session0_def session1_def path_def content_def fresh_session_def)
  have should: "shouldProcessChunk example_env session1 buf ((d :: disk)(path \<mapsto> content)) = False" for d buf
    by (subst shouldProcessChunk_eq [of _ path _ content])
      (simp_all add: session1_def session0_def content_def fresh_session_def example_env_def)
  have inner: "audio_try example_env example_socket
       \<lparr>msg_data = Arr (wav_frame 2988), msg_format = Some ''wav'', msg_sampleRate = Some 16000\<rparr> True session0 s
     = (Inr (), session1,
        emit example_socket (Callback (AudioAck ''received'' 3000))
          (s\<lparr>disk := (disk s)(path \<mapsto> content), streams := insert path (streams s)\<rparr>))" for s
    using isWav_wav_frame [of 2987]
    by (simp add: audio_try_def decode_audio_def stream should emit_def Let_def)
      (simp add: session1_def session0_def fresh_session_def)
  define s1 where "s1 = connection example_env example_socket empty_server"
  have get: "sessions_get s1 (sock_id example_socket) = Some (fresh_session example_env)"
    unfolding s1_def by (rule sessions_get_connection)
  have rec: "\<not> isPaused (fresh_session example_env)" by (simp add: fresh_session_def)
  have s0: "(fresh_session example_env)\<lparr>lastProcessed := now example_env, sampleRate := 16000\<rparr> = session0"
    by (simp add: session0_def)
  have "on_audio example_env example_socket
               \<lparr>msg_data = Arr (wav_frame 2988), msg_format = Some ''wav'', msg_sampleRate = Some 16000\<rparr>
               True s1
      = put_session (sock_id example_socket) session1
          (emit example_socket (Callback (AudioAck ''received'' 3000))
            (s1\<lparr>disk := (disk s1)(path \<mapsto> content), streams := insert path (streams s1)\<rparr>))"
    by (simp add: on_audio_recording [OF get rec] s0 inner)
  then show ?thesis
    unfolding s1_def [symmetric]
    by (simp add: Let_def put_session_def emit_def sessions_get_def should)
      (simp add: s1_def connection_def empty_server_def example_socket_def)
qed

section \<open>Successive chunks of one session\<close>

lemma audio_try_example_flush:
  assumes stream: "streamToDisk example_env session (Buffer_from xs) s = (Inr (Some f), session1, s1)"
    and wav: "isWav (Buffer_from xs)"
    and f: "tempFile session1 = Some f" "disk s1 f = Some content"
    and size: "44 \<le> length content" "length content \<le> MAX_AUDIO_SIZE"
      "sampleRate session1 \<le> int (length content)"
    and fin: "\<not> pendingFinalize session1"
  shows "audio_try example_env sock \<lparr>msg_data = Arr xs, msg_format = fmt, msg_sampleRate = sr\<rparr> True session s =
     (Inr (), session1\<lparr>lastProcessed := 1700000000000\<rparr>,
      s1\<lparr>disk := (disk s1)(f \<mapsto> header_patched (int (length content) - 44) content),
         trace := trace s1 @ [PrimaryCall (header_patched (int (length content) - 44) content)],
         emitted := emitted s1
           @ [(sock_id sock, Callback (AudioAck ''received'' (length xs))),
              (sock_id sock, Emit ''transcript'' (TranscriptEvent ''hello'' True ''groq''))]\<rparr>)"
proof -
  define s2 where "s2 = emit sock (Callback (AudioAck ''received'' (length (Buffer_from xs)))) s1"
  have d2: "disk s2 f = Some content" by (simp add: s2_def emit_def f)
  have should: "shouldProcessChunk example_env session1 (Buffer_from xs) (disk s2)"
    using size by (simp add: shouldProcessChunk_eq [of session1 f "disk s2" content, OF f(1) d2])
  have "audio_try example_env sock \<lparr>msg_data = Arr xs, msg_format = fmt, msg_sampleRate = sr\<rparr> True session s =
    (case processAudioChunk example_env sock session1 s2 of
       Inl err \<Rightarrow> undefined
     | Inr (session3, s4) \<Rightarrow> (Inr (), session3, s4))"
    using wav should f fin
    by (simp add: audio_try_def decode_audio_def stream Let_def s2_def [symmetric]
        processAudioChunk_hello [OF f(1) d2 size(1,2)])
  then show ?thesis
    by (simp add: processAudioChunk_hello [OF f(1) d2 size(1,2)])
      (simp add: s2_def emit_def Buffer_from_def)
qed

text \<open>
  Claim C2, at two frames of half a second each (16000 and 16002 bytes at 16 kHz), sent one
  after the other on a fresh connection to a server whose primary service answers at once.
  Each frame makes the file long enough to be flushed. \<^verbatim>\<open>processAudioChunk\<close> keeps
  \<^verbatim>\<open>session.tempFile\<close> and the file (lemma \<open>processAudioChunk_frame\<close>), so the second frame is
  appended to the bytes already transcribed, and the second submission carries the first
  frame again in front of the second.
\<close>

theorem second_submission_repeats_first_chunk:
  "(let frameA = \<lparr>msg_data = Arr (wav_frame 15988), msg_format = Some ''wav'', msg_sampleRate = Some 16000\<rparr>;
        frameB = \<lparr>msg_data = Arr (wav_frame 15990), msg_format = Some ''wav'', msg_sampleRate = Some 16000\<rparr>;
        s1 = connection example_env example_socket empty_server;
        s2 = on_audio example_env example_socket frameA True s1;
        s3 = on_audio example_env example_socket frameB True s2
    in map submitted_data (trace s3))
   = [Buffer_from (wav_frame 15988), Buffer_from (wav_frame 15988) @ Buffer_from (wav_frame 15990)]"
proof -
  define frame where "frame = \<lparr>msg_data = Arr (wav_frame 15988), msg_format = Some ''wav'', msg_sampleRate = Some 16000\<rparr>"
  define frameB where "frameB = \<lparr>msg_data = Arr (wav_frame 15990), msg_format = Some ''wav'', msg_sampleRate = Some 16000\<rparr>"
  define A where "A = Buffer_from (wav_frame 15988)"
  define B where "B = Buffer_from (wav_frame 15990)"
  define session0 where "session0 = (fresh_session example_env)\<lparr>lastProcessed := now example_env, sampleRate := 16000\<rparr>"
  define path where "path = join TEMP_DIR (uuid example_env @ ''.wav'')"
  define session1 where "session1 = session0\<lparr>tempFile := Some path, writeStream := Some path\<rparr>"
  define content1 where "content1 = wav_header 16000 @ A"
  define patched1 where "patched1 = header_patched 16000 content1"
  define content2 where "content2 = patched1 @ B"
  define patched2 where "patched2 = header_patched 32002 content2"
  define s1 where "s1 = connection example_env example_socket empty_server"
  define s2 where "s2 = on_audio example_env example_socket frame True s1"
  define s3 where "s3 = on_audio example_env example_socket frameB True s2"
  have lenA: "length A = 16000" by (simp add: A_def)
  have lenB: "length B = 16002" by (simp add: B_def)
  have wavA: "isWav A" unfolding A_def using isWav_wav_frame [of 15987] by simp
  have wavB: "isWav B" unfolding B_def using isWav_wav_frame [of 15989] by simp
  have len1: "length content1 = 16044" by (simp add: content1_def lenA)
  have lenp1: "length patched1 = 16044" by (simp add: patched1_def header_patched_fields len1)
  have len2: "length content2 = 32046" by (simp add: content2_def lenp1 lenB)
  have data1: "drop 44 patched1 = A"
    by (simp add: patched1_def header_patched_fields len1) (simp add: content1_def)
  have data2: "drop 44 patched2 = A @ B"
    by (simp add: patched2_def header_patched_fields len2) (simp add: content2_def lenp1 data1)
  have s0: "(fresh_session example_env)\<lparr>lastProcessed := now example_env, sampleRate := 16000\<rparr> = session0"
    by (simp add: session0_def)
  have now: "now example_env = 1700000000000" by (simp add: example_env_def)
  \<comment> \<open>first frame\<close>
  have get1: "sessions_get s1 (sock_id example_socket) = Some (fresh_session example_env)"
    unfolding s1_def by (rule sessions_get_connection)
  have rec1: "\<not> isPaused (fresh_session example_env)" by (simp add: fresh_session_def)
  have stream1: "streamToDisk example_env session0 A s1 =
     (Inr (Some path), session1, s1\<lparr>disk := (disk s1)(path \<mapsto> content1), streams := insert path (streams s1)\<rparr>)"
    using streamToDisk_new [of session0 example_env A s1]
    by (simp add: session0_def session1_def path_def content1_def fresh_session_def)
  have try1: "audio_try example_env example_socket frame True session0 s1 =
     (Inr (), session1\<lparr>lastProcessed := 1700000000000\<rparr>,
      s1\<lparr>disk := (disk s1)(path \<mapsto> patched1), streams := insert path (streams s1),
         trace := trace s1 @ [PrimaryCall patched1],
         emitted := emitted s1
           @ [(sock_id example_socket, Callback (AudioAck ''received'' 16000)),
              (sock_id example_socket, Emit ''transcript'' (TranscriptEvent ''hello'' True ''groq''))]\<rparr>)"
    unfolding frame_def
    by (subst audio_try_example_flush [OF stream1 [unfolded A_def], of content1])
      (simp_all add: wavA [unfolded A_def] session1_def session0_def fresh_session_def len1
         MAX_AUDIO_SIZE_def patched1_def)
  have s2_eq: "s2 = put_session (sock_id example_socket) (session1\<lparr>lastProcessed := 1700000000000\<rparr>)
      (s1\<lparr>disk := (disk s1)(path \<mapsto> patched1), streams := insert path (streams s1),
         trace := trace s1 @ [PrimaryCall patched1],
         emitted := emitted s1
           @ [(sock_id example_socket, Callback (AudioAck ''received'' 16000)),
              (sock_id example_socket, Emit ''transcript'' (TranscriptEvent ''hello'' True ''groq''))]\<rparr>)"
    unfolding s2_def
    by (simp add: on_audio_recording [OF get1 rec1] frame_def [symmetric] s0 try1)
      (simp add: frame_def s0 try1 [unfolded frame_def])
  \<comment> \<open>second frame\<close>
  define session2 where "session2 = session1\<lparr>lastProcessed := 1700000000000\<rparr>"
  have in_map: "sock_id example_socket \<in> sessions s1" by (simp add: s1_def connection_def)
  have get2: "sessions_get s2 (sock_id example_socket) = Some session2"
    by (simp add: s2_eq sessions_get_def put_session_def session2_def in_map)
  have rec2: "\<not> isPaused session2"
    by (simp add: session2_def session1_def session0_def fresh_session_def)
  have same2: "session2\<lparr>lastProcessed := now example_env, sampleRate := 16000\<rparr> = session2"
    by (simp add: session2_def session1_def session0_def now)
  have stream2: "streamToDisk example_env session2 B s2 =
     (Inr (Some path), session2, s2\<lparr>disk := (disk s2)(path \<mapsto> content2)\<rparr>)"
    using streamToDisk_open [of session2 path path s2 patched1 example_env B]
    by (simp add: session2_def session1_def s2_eq put_session_def content2_def)
  have try2: "audio_try example_env example_socket frameB True session2 s2 =
     (Inr (), session2\<lparr>lastProcessed := 1700000000000\<rparr>,
      s2\<lparr>disk := (disk s2)(path \<mapsto> patched2),
         trace := trace s2 @ [PrimaryCall patched2],
         emitted := emitted s2
           @ [(sock_id example_socket, Callback (AudioAck ''received'' 16002)),
              (sock_id example_socket, Emit ''transcript'' (TranscriptEvent ''hello'' True ''groq''))]\<rparr>)"
    unfolding frameB_def
    by (subst audio_try_example_flush [OF stream2 [unfolded B_def], of content2])
      (simp_all add: wavB [unfolded B_def] session2_def session1_def session0_def fresh_session_def len2
         MAX_AUDIO_SIZE_def patched2_def)
  have tr1: "trace s1 = []" by (simp add: s1_def connection_def empty_server_def)
  have tr2: "trace s2 = [PrimaryCall patched1]" by (simp add: s2_eq put_session_def tr1)
  have "trace s3 = [PrimaryCall patched1, PrimaryCall patched2]"
    unfolding s3_def
    by (simp add: on_audio_recording [OF get2 rec2] frameB_def [symmetric])
      (simp add: frameB_def same2 try2 [unfolded frameB_def] put_session_def tr2)
  then have "map submitted_data (trace s3) = [A, A @ B]"
    by (simp add: data1 data2)
  then show ?thesis
    unfolding s3_def s2_def s1_def frame_def frameB_def A_def B_def Let_def .
qed

section \<open>Retry count and backoff\<close>

text \<open>
  With \<open>m = min (200 * 2 ^ (n - 1)) 6000\<close> the base delay is \<open>5 * m\<close>. Each of the five
  roundings moves its result by less than \<open>2 ^ -52\<close> of a bound on it, so the rounded product
  lies within a millionth of the interval from \<open>4 * m\<close> to \<open>6 * m\<close>, and \<open>round\<close> takes it to an
  integer of that interval.
\<close>

lemma backoff_delay_bounds:
  assumes "0 \<le> r" "r < 1"
  shows "4 / 5 * of_int (min (1000 * 2 ^ nat (n - 1)) 30000) \<le> (of_int (backoff_delay n r) :: rat)"
    and "(of_int (backoff_delay n r) :: rat) \<le> 6 / 5 * of_int (min (1000 * 2 ^ nat (n - 1)) 30000)"
proof -
  define m :: int where "m = min (200 * 2 ^ nat (n - 1)) 6000"
  have base: "min (1000 * 2 ^ nat (n - 1)) 30000 = 5 * m"
    by (simp add: m_def min_def)
  have m0: "0 \<le> m" "m \<le> 6000" by (simp_all add: m_def)
  define u :: rat where "u = 1 / 2 ^ 53"
  have u: "0 < u" "u * 1000000 \<le> 1 / 2" by (simp_all add: u_def)
  define c4 where "c4 = float64 (2 / 5)"
  define c8 where "c8 = float64 (4 / 5)"
  define t where "t = float64 (r * c4)"
  define j where "j = float64 (c8 + t)"
  define p where "p = float64 (of_int (5 * m) * j)"
  have c4: "\<bar>c4 - 2 / 5\<bar> \<le> u"
    using float64_error [of "2 / 5" 1] by (simp add: c4_def u_def)
  have c8: "\<bar>c8 - 4 / 5\<bar> \<le> u"
    using float64_error [of "4 / 5" 1] by (simp add: c8_def u_def)
  have c4r: "0 \<le> c4" "c4 \<le> 1" using c4 u by linarith+
  have rc: "0 \<le> r * c4" "r * c4 \<le> c4"
    using assms c4r by (simp_all add: mult_left_le_one_le)
  have t: "\<bar>t - r * c4\<bar> \<le> u"
    using float64_error [of "r * c4" 1] rc c4r by (simp add: t_def u_def)
  have sum: "4 / 5 - 2 * u \<le> c8 + t" "c8 + t \<le> 6 / 5 + 3 * u"
    using c4 c8 t rc by linarith+
  have j: "\<bar>j - (c8 + t)\<bar> \<le> 2 * u"
    using float64_error [of "c8 + t" 2] sum u by (simp add: j_def u_def)
  have jr: "4 / 5 - 4 * u \<le> j" "j \<le> 6 / 5 + 5 * u"
    using j sum by linarith+
  define M :: rat where "M = of_int m"
  have M: "0 \<le> M" "M \<le> 6000" using m0 by (simp_all add: M_def)
  have prod: "4 * M - 120000 * u \<le> 5 * M * j" "5 * M * j \<le> 6 * M + 150000 * u"
  proof -
    have "5 * M * (4 / 5 - 4 * u) \<le> 5 * M * j"
      using jr(1) M by (intro mult_left_mono) simp_all
    moreover have "20 * (M * u) \<le> 20 * (6000 * u)"
      using M u by (intro mult_left_mono mult_right_mono) simp_all
    ultimately show "4 * M - 120000 * u \<le> 5 * M * j" by (simp add: algebra_simps)
    have "5 * M * j \<le> 5 * M * (6 / 5 + 5 * u)"
      using jr(2) M by (intro mult_left_mono) simp_all
    moreover have "25 * (M * u) \<le> 25 * (6000 * u)"
      using M u by (intro mult_left_mono mult_right_mono) simp_all
    ultimately show "5 * M * j \<le> 6 * M + 150000 * u" by (simp add: algebra_simps)
  qed
  have q: "of_int (5 * m) * j = 5 * M * j" by (simp add: M_def)
  have q0: "0 \<le> of_int (5 * m) * j" "of_int (5 * m) * j \<le> 40000"
  proof -
    have "0 \<le> j" using jr(1) u by linarith
    then show "0 \<le> of_int (5 * m) * j" using m0 by simp
    show "of_int (5 * m) * j \<le> 40000" unfolding q using prod(2) M u by linarith
  qed
  have p: "\<bar>p - 5 * M * j\<bar> \<le> 40000 * u"
    using float64_error [OF q0] unfolding p_def q by (simp add: u_def)
  have pr: "4 * M - 1 / 2 \<le> p" "p \<le> 6 * M + 1 / 4"
    using p prod u by linarith+
  have delay: "backoff_delay n r = round p"
    unfolding backoff_delay_def RETRY_DELAY_MS_def Let_def base p_def j_def t_def c8_def c4_def ..
  have "of_int (4 * m) \<le> p + 1 / 2" using pr(1) by (simp add: M_def)
  then have "4 * m \<le> \<lfloor>p + 1 / 2\<rfloor>" by (simp only: le_floor_iff)
  then have lo: "4 * m \<le> round p" by (simp add: round_def)
  have "p + 1 / 2 < of_int (6 * m + 1)" using pr(2) by (simp add: M_def)
  then have "\<lfloor>p + 1 / 2\<rfloor> < 6 * m + 1" by (simp only: floor_less_iff)
  then have hi: "round p \<le> 6 * m" by (simp add: round_def)
  show "4 / 5 * of_int (min (1000 * 2 ^ nat (n - 1)) 30000) \<le> (of_int (backoff_delay n r) :: rat)"
    using lo unfolding base delay by (simp flip: of_int_mult of_int_le_iff)
  show "(of_int (backoff_delay n r) :: rat) \<le> 6 / 5 * of_int (min (1000 * 2 ^ nat (n - 1)) 30000)"
    using hi unfolding base delay by (simp flip: of_int_mult of_int_le_iff)
qed

text \<open>Waits and runs of a list that is put together from parts.\<close>

lemma attempt_runs_not_empty [simp]: "attempt_runs xs \<noteq> []"
  by (induction xs rule: attempt_runs.induct) simp_all

lemma waits_set: "(n, d) \<in> set (waits xs) \<longleftrightarrow> Retrying n d \<in> set xs"
  by (induction xs rule: waits.induct) auto

lemma waits_without_wait:
  assumes "\<forall>n d. Retrying n d \<notin> set xs"
  shows "waits (xs @ ys) = waits ys"
  using assms by (induction xs rule: waits.induct) auto

lemma attempt_runs_without_wait:
  assumes "\<forall>n d. Retrying n d \<notin> set xs"
  shows "attempt_runs (xs @ ys) = (xs @ hd (attempt_runs ys)) # tl (attempt_runs ys)"
  using assms
proof (induction xs)
  case Nil
  then show ?case by simp
next
  case (Cons a xs)
  then show ?case by (cases a) auto
qed

lemma one_attempt_run:
  assumes "\<forall>n d. Retrying n d \<notin> set xs"
  shows "attempt_runs xs = [xs]" "waits xs = []"
  using attempt_runs_without_wait [OF assms, of "[]"] waits_without_wait [OF assms, of "[]"]
  by simp_all

text \<open>
  The loop, from any attempt on: the trace it adds is a sequence of runs, one for each
  attempt that was made, with at most one call of the primary service in each; between
  two runs lies the wait that follows the earlier attempt, numbered with that attempt.
\<close>

lemma retry_loop_runs:
  "\<exists>new r. retry_loop e audioPath maxRetries attempt lastError s = (r, s\<lparr>trace := trace s @ new\<rparr>)
     \<and> (maxRetries < attempt \<longrightarrow> new = [])
     \<and> (attempt \<le> maxRetries \<longrightarrow>
          int (length (attempt_runs new)) \<le> maxRetries + 1 - attempt
          \<and> map fst (waits new) = [attempt .. attempt + int (length (attempt_runs new)) - 2])
     \<and> (\<forall>run \<in> set (attempt_runs new). primary_calls run \<le> 1)"
proof (induction e audioPath maxRetries attempt lastError s rule: retry_loop.induct)
  case (1 e audioPath maxRetries attempt lastError s)
  show ?case
  proof (cases "attempt \<le> maxRetries")
    case False
    then have "retry_loop e audioPath maxRetries attempt lastError s
        = (Inl (case lastError of Some err \<Rightarrow> err
                | None \<Rightarrow> ''Transcription failed after multiple attempts''), s\<lparr>trace := trace s @ []\<rparr>)"
      by (simp add: retry_loop.simps)
    with False show ?thesis by (intro exI [of _ "[]"]) auto
  next
    case True
    obtain new1 r1 where t: "transcribeAudio e audioPath s = (r1, s\<lparr>trace := trace s @ new1\<rparr>)"
      and c1: "primary_calls new1 \<le> 1" and d1: "\<forall>n d. Retrying n d \<notin> set new1"
      using transcribeAudio_trace by blast
    note single = one_attempt_run [OF d1]
    have upto_empty: "[attempt .. attempt + 1 - 2] = []" by simp
    define s1 where "s1 = s\<lparr>trace := trace s @ new1\<rparr>"
    show ?thesis
    proof (cases r1)
      case (Inr result)
      with True t have "retry_loop e audioPath maxRetries attempt lastError s
          = (Inr result, s\<lparr>trace := trace s @ new1\<rparr>)"
        by (simp add: retry_loop.simps)
      with c1 True single show ?thesis by (intro exI [of _ new1]) auto
    next
      case (Inl err)
      show ?thesis
      proof (cases "nonRetryable err")
        case nr: True
        with Inl True t have "retry_loop e audioPath maxRetries attempt lastError s
            = (Inl err, s\<lparr>trace := trace s @ new1\<rparr>)"
          by (simp add: retry_loop.simps)
        with c1 True single show ?thesis by (intro exI [of _ new1]) auto
      next
        case False
        define d where "d = backoff_delay attempt (random e (length (trace s1)))"
        define new2 where "new2 = (if attempt < maxRetries then [Retrying attempt d] else [])"
        define s2 where "s2 = (if attempt < maxRetries
            then record_action (Retrying attempt (backoff_delay attempt (random e (length (trace s1))))) s1
            else s1)"
        have s2: "s2 = s\<lparr>trace := trace s @ (new1 @ new2)\<rparr>"
          by (simp add: s2_def new2_def s1_def record_action_def d_def)
        have step: "retry_loop e audioPath maxRetries attempt lastError s
            = retry_loop e audioPath maxRetries (attempt + 1) (Some err) s2"
          using True Inl False t
          by (subst retry_loop.simps) (simp add: s2_def s1_def Let_def)
        from "1.IH" [OF True t [symmetric] Inl False s2_def [unfolded s1_def]]
        obtain new3 r3 where
          r: "retry_loop e audioPath maxRetries (attempt + 1) (Some err) s2
                = (r3, s2\<lparr>trace := trace s2 @ new3\<rparr>)"
          and last: "maxRetries < attempt + 1 \<longrightarrow> new3 = []"
          and more: "attempt + 1 \<le> maxRetries \<longrightarrow>
              int (length (attempt_runs new3)) \<le> maxRetries + 1 - (attempt + 1)
              \<and> map fst (waits new3) = [attempt + 1 .. attempt + 1 + int (length (attempt_runs new3)) - 2]"
          and c3: "\<forall>run \<in> set (attempt_runs new3). primary_calls run \<le> 1"
          by blast
        have run: "retry_loop e audioPath maxRetries attempt lastError s
            = (r3, s\<lparr>trace := trace s @ (new1 @ new2 @ new3)\<rparr>)"
          using r [unfolded s2] by (simp add: step s2)
        show ?thesis
        proof (cases "attempt < maxRetries")
          case False
          with True last have "new2 = []" "new3 = []" by (simp_all add: new2_def)
          with run have "retry_loop e audioPath maxRetries attempt lastError s
              = (r3, s\<lparr>trace := trace s @ new1\<rparr>)" by simp
          with c1 True single show ?thesis by (intro exI [of _ new1]) auto
        next
          case less: True
          define len3 where "len3 = int (length (attempt_runs new3))"
          have pos: "1 \<le> len3"
            unfolding len3_def by (cases "attempt_runs new3") simp_all
          have new: "new1 @ new2 @ new3 = new1 @ Retrying attempt d # new3"
            using less by (simp add: new2_def)
          have runs: "attempt_runs (new1 @ new2 @ new3) = new1 # attempt_runs new3"
            unfolding new by (simp add: attempt_runs_without_wait [OF d1])
          have ws: "waits (new1 @ new2 @ new3) = (attempt, d) # waits new3"
            unfolding new by (simp add: waits_without_wait [OF d1])
          from more less have len: "len3 \<le> maxRetries + 1 - (attempt + 1)"
            and nums: "map fst (waits new3) = [attempt + 1 .. attempt + 1 + len3 - 2]"
            by (simp_all add: len3_def)
          have "[attempt .. attempt + (1 + len3) - 2] = attempt # [attempt + 1 .. attempt + 1 + len3 - 2]"
            using pos by (subst upto_rec1) (simp_all add: algebra_simps)
          then have "map fst (waits (new1 @ new2 @ new3))
              = [attempt .. attempt + int (length (attempt_runs (new1 @ new2 @ new3))) - 2]"
            by (simp add: ws runs nums len3_def)
          moreover have "int (length (attempt_runs (new1 @ new2 @ new3))) \<le> maxRetries + 1 - attempt"
            using len by (simp add: runs len3_def)
          moreover have "\<forall>run \<in> set (attempt_runs (new1 @ new2 @ new3)). primary_calls run \<le> 1"
            using c1 c3 by (simp add: runs)
          ultimately show ?thesis using run True
            by (intro exI [of _ "new1 @ new2 @ new3"] exI [of _ r3]) simp
        qed
      qed
    qed
  qed
qed

text \<open>
  Claim C7. One call of \<^verbatim>\<open>transcribeWithRetry\<close> with the default \<^verbatim>\<open>MAX_RETRIES\<close> makes at
  most 3 attempts, whatever the service and the fallback answer: what it adds to the trace
  falls into at most 3 runs with at most one call of the primary service in each, so the
  primary service is called at most 3 times. Between two consecutive runs the loop waits,
  and the waits are numbered 1, 2, ... with the attempt they follow: no attempt but the
  first starts without the wait after the attempt before it. When \<^verbatim>\<open>Math.random()\<close>
  returns values in [0, 1), the wait after attempt n lies between 0.8 and 1.2 times
  \<open>min (1000 * 2 ^ (n - 1)) 30000\<close> milliseconds, in the double arithmetic of the code.
\<close>

theorem retries_bounded_and_backoff_in_range:
  assumes "\<forall>k. 0 \<le> random e k \<and> random e k < 1"
  shows "\<exists>new r. transcribeWithRetry e audioPath MAX_RETRIES s = (r, s\<lparr>trace := trace s @ new\<rparr>)
     \<and> primary_calls new \<le> 3
     \<and> length (attempt_runs new) \<le> 3
     \<and> (\<forall>run \<in> set (attempt_runs new). primary_calls run \<le> 1)
     \<and> map fst (waits new) = [1 .. int (length (attempt_runs new)) - 1]
     \<and> (\<forall>n d. Retrying n d \<in> set new \<longrightarrow>
            1 \<le> n
            \<and> 4 / 5 * of_int (min (1000 * 2 ^ nat (n - 1)) 30000) \<le> (of_int d :: rat)
            \<and> (of_int d :: rat) \<le> 6 / 5 * of_int (min (1000 * 2 ^ nat (n - 1)) 30000))"
proof -
  obtain new r where run: "retry_loop e audioPath 3 1 None s = (r, s\<lparr>trace := trace s @ new\<rparr>)"
    and calls: "primary_calls new \<le> nat (3 + 1 - 1)"
    and delays: "\<forall>n d. Retrying n d \<in> set new \<longrightarrow>
            1 \<le> n \<and> n < 3 \<and> (\<exists>k. d = backoff_delay n (random e k))"
    using retry_loop_trace [of e audioPath 3 1 None s] by blast
  obtain new' r' where run': "retry_loop e audioPath 3 1 None s = (r', s\<lparr>trace := trace s @ new'\<rparr>)"
    and shape: "(1::int) \<le> 3 \<longrightarrow>
          int (length (attempt_runs new')) \<le> 3 + 1 - 1
          \<and> map fst (waits new') = [1 .. 1 + int (length (attempt_runs new')) - 2]"
    and each: "\<forall>run \<in> set (attempt_runs new'). primary_calls run \<le> 1"
    using retry_loop_runs [of e audioPath 3 1 None s] by blast
  from run run' have "trace (s\<lparr>trace := trace s @ new\<rparr>) = trace (s\<lparr>trace := trace s @ new'\<rparr>)"
    by simp
  then have same: "new' = new" by simp
  have "transcribeWithRetry e audioPath MAX_RETRIES s = (r, s\<lparr>trace := trace s @ new\<rparr>)"
    using run by (simp add: transcribeWithRetry_def MAX_RETRIES_def)
  moreover have "primary_calls new \<le> 3" using calls by simp
  moreover have "length (attempt_runs new) \<le> 3"
    using shape unfolding same by simp
  moreover have "\<forall>run \<in> set (attempt_runs new). primary_calls run \<le> 1"
    using each unfolding same .
  moreover have "map fst (waits new) = [1 .. int (length (attempt_runs new)) - 1]"
    using shape unfolding same by (simp add: algebra_simps)
  moreover have "\<forall>n d. Retrying n d \<in> set new \<longrightarrow>
            1 \<le> n
            \<and> 4 / 5 * of_int (min (1000 * 2 ^ nat (n - 1)) 30000) \<le> (of_int d :: rat)
            \<and> (of_int d :: rat) \<le> 6 / 5 * of_int (min (1000 * 2 ^ nat (n - 1)) 30000)"
  proof (intro allI impI)
    fix n d
    assume "Retrying n d \<in> set new"
    with delays obtain k where n: "1 \<le> n" and d: "d = backoff_delay n (random e k)" by blast
    from assms have "0 \<le> random e k" "random e k < 1" by auto
    then show "1 \<le> n
            \<and> 4 / 5 * of_int (min (1000 * 2 ^ nat (n - 1)) 30000) \<le> (of_int d :: rat)
            \<and> (of_int d :: rat) \<le> 6 / 5 * of_int (min (1000 * 2 ^ nat (n - 1)) 30000)"
      using n backoff_delay_bounds [of "random e k" n] unfolding d by blast
  qed
  ultimately show ?thesis by blast
qed

text \<open>A run in which every primary call fails with a retryable error and the fallback is down.\<close>

lemma failing_run:
  assumes "disk s audioPath = Some audio" "length audio \<le> MAX_AUDIO_SIZE"
  shows "transcribeWithRetry failing_env audioPath MAX_RETRIES s =
     (Inl ''socket hang up'',
      s\<lparr>trace := trace s @
        [PrimaryCall audio, FallbackCall audio 16000, Retrying 1 1000,
         PrimaryCall audio, FallbackCall audio 16000, Retrying 2 2000,
         PrimaryCall audio, FallbackCall audio 16000]\<rparr>)"
  using assms by (simp add: run_simps failing_env_def example_env_def)

lemma chunk_server_file:
  "disk chunk_server ''chunk.wav'' = Some (wav_header 16000 @ [1, 2, 3, 4])"
  "length (wav_header 16000 @ [1, 2, 3, 4]) \<le> MAX_AUDIO_SIZE"
  "trace chunk_server = []"
  by (simp_all add: chunk_server_def empty_server_def MAX_AUDIO_SIZE_def)

text \<open>
  The theorem at that run: three runs with one primary call each, a wait of 1000 ms after
  the first attempt and one of 2000 ms, within [1600, 2400], after the second.
\<close>

theorem retries_bounded_and_backoff_in_range_witness:
  "(\<forall>k. 0 \<le> random failing_env k \<and> random failing_env k < 1)
   \<and> attempt_runs (trace (snd (transcribeWithRetry failing_env ''chunk.wav'' MAX_RETRIES chunk_server)))
       = [[PrimaryCall (wav_header 16000 @ [1, 2, 3, 4]), FallbackCall (wav_header 16000 @ [1, 2, 3, 4]) 16000],
          [PrimaryCall (wav_header 16000 @ [1, 2, 3, 4]), FallbackCall (wav_header 16000 @ [1, 2, 3, 4]) 16000],
          [PrimaryCall (wav_header 16000 @ [1, 2, 3, 4]), FallbackCall (wav_header 16000 @ [1, 2, 3, 4]) 16000]]
   \<and> waits (trace (snd (transcribeWithRetry failing_env ''chunk.wav'' MAX_RETRIES chunk_server)))
       = [(1, 1000), (2, 2000)]
   \<and> primary_calls (trace (snd (transcribeWithRetry failing_env ''chunk.wav'' MAX_RETRIES chunk_server))) = 3
   \<and> Retrying 2 2000 \<in> set (trace (snd (transcribeWithRetry failing_env ''chunk.wav'' MAX_RETRIES chunk_server)))
   \<and> 4 / 5 * of_int (min (1000 * 2 ^ nat (2 - 1)) 30000) \<le> (of_int 2000 :: rat)
   \<and> (of_int 2000 :: rat) \<le> 6 / 5 * of_int (min (1000 * 2 ^ nat (2 - 1)) 30000)"
proof -
  have range: "\<forall>k. 0 \<le> random failing_env k \<and> random failing_env k < 1"
    by (simp add: failing_env_def example_env_def)
  from retries_bounded_and_backoff_in_range [OF range, of "''chunk.wav''" chunk_server]
  obtain new r where
    run: "transcribeWithRetry failing_env ''chunk.wav'' MAX_RETRIES chunk_server
            = (r, chunk_server\<lparr>trace := trace chunk_server @ new\<rparr>)"
    and calls: "primary_calls new \<le> 3"
    and delays: "\<forall>n d. Retrying n d \<in> set new \<longrightarrow>
            1 \<le> n
            \<and> 4 / 5 * of_int (min (1000 * 2 ^ nat (n - 1)) 30000) \<le> (of_int d :: rat)
            \<and> (of_int d :: rat) \<le> 6 / 5 * of_int (min (1000 * 2 ^ nat (n - 1)) 30000)"
    by blast
  have new: "new =
        [PrimaryCall (wav_header 16000 @ [1, 2, 3, 4]), FallbackCall (wav_header 16000 @ [1, 2, 3, 4]) 16000,
         Retrying 1 1000,
         PrimaryCall (wav_header 16000 @ [1, 2, 3, 4]), FallbackCall (wav_header 16000 @ [1, 2, 3, 4]) 16000,
         Retrying 2 2000,
         PrimaryCall (wav_header 16000 @ [1, 2, 3, 4]), FallbackCall (wav_header 16000 @ [1, 2, 3, 4]) 16000]"
    using run unfolding failing_run [OF chunk_server_file(1,2)]
    by (simp add: chunk_server_def empty_server_def)
  have mem: "Retrying 2 2000 \<in> set new" by (simp add: new)
  have "primary_calls new = 3" by (simp add: new)
  moreover have "attempt_runs new
       = [[PrimaryCall (wav_header 16000 @ [1, 2, 3, 4]), FallbackCall (wav_header 16000 @ [1, 2, 3, 4]) 16000],
          [PrimaryCall (wav_header 16000 @ [1, 2, 3, 4]), FallbackCall (wav_header 16000 @ [1, 2, 3, 4]) 16000],
          [PrimaryCall (wav_header 16000 @ [1, 2, 3, 4]), FallbackCall (wav_header 16000 @ [1, 2, 3, 4]) 16000]]"
    by (simp add: new)
  moreover have "waits new = [(1, 1000), (2, 2000)]" by (simp add: new)
  moreover have "trace (snd (transcribeWithRetry failing_env ''chunk.wav'' MAX_RETRIES chunk_server)) = new"
    unfolding failing_run [OF chunk_server_file(1,2)] by (simp add: new chunk_server_file)
  ultimately show ?thesis
    using range mem delays [rule_format, OF mem] by simp
qed

section \<open>When the fallback engine is called\<close>

text \<open>
  Claim C3, as the code has it. The fallback sits in the \<^verbatim>\<open>catch\<close> block of
  \<^verbatim>\<open>transcribeAudio\<close>, that is inside every single attempt: an attempt with a configured
  key and a readable file calls the local engine (with 16000 as sample rate) directly
  after a failed call of the primary service, and directly after the size check has
  rejected a file above 25 MiB. It does not call it when the key is not configured, when
  the file cannot be read, or when the primary service returned a text. Whether retries
  remain plays no role.
\<close>

theorem fallback_follows_each_failed_attempt:
  "trace (snd (transcribeAudio e audioPath s)) = trace s @
     (if GROQ_API_KEY e = [] then []
      else case disk s audioPath of
             None \<Rightarrow> []
           | Some audio \<Rightarrow>
               (if MAX_AUDIO_SIZE < length audio then [FallbackCall audio 16000]
                else (case primary e (length (trace s)) audio of
                        OkJson (Some text) \<Rightarrow> [PrimaryCall audio]
                      | OkJson None \<Rightarrow> [PrimaryCall audio, FallbackCall audio 16000]
                      | NetworkError m \<Rightarrow> [PrimaryCall audio, FallbackCall audio 16000]
                      | HttpError status m1 m2 \<Rightarrow> [PrimaryCall audio, FallbackCall audio 16000]
                      | BadJson m \<Rightarrow> [PrimaryCall audio, FallbackCall audio 16000])))"
  by (simp add: transcribeAudio_def primary_attempt_eq fallback_attempt_def record_action_def Let_def
      split: option.splits http_response.splits fallback_result.splits)

text \<open>The theorem at one attempt whose primary call fails with a network error.\<close>

theorem fallback_follows_each_failed_attempt_witness:
  "trace (snd (transcribeAudio failing_env ''chunk.wav'' chunk_server)) =
     [PrimaryCall (wav_header 16000 @ [1, 2, 3, 4]), FallbackCall (wav_header 16000 @ [1, 2, 3, 4]) 16000]"
  using fallback_follows_each_failed_attempt [of failing_env "''chunk.wav''" chunk_server]
  by (simp add: failing_env_def example_env_def chunk_server_def empty_server_def MAX_AUDIO_SIZE_def)

text \<open>
  Against claim C3 as stated: with a primary service that fails retryably, the fallback
  is called after the first attempt, while two more primary attempts are still to come;
  and for a file that fails the size validation the fallback is the only call made.
\<close>

theorem fallback_before_retries_counterexample:
  "trace (snd (transcribeWithRetry failing_env ''chunk.wav'' MAX_RETRIES chunk_server)) =
     [PrimaryCall (wav_header 16000 @ [1, 2, 3, 4]), FallbackCall (wav_header 16000 @ [1, 2, 3, 4]) 16000,
      Retrying 1 1000,
      PrimaryCall (wav_header 16000 @ [1, 2, 3, 4]), FallbackCall (wav_header 16000 @ [1, 2, 3, 4]) 16000,
      Retrying 2 2000,
      PrimaryCall (wav_header 16000 @ [1, 2, 3, 4]), FallbackCall (wav_header 16000 @ [1, 2, 3, 4]) 16000]
   \<and> trace (snd (transcribeAudio example_env ''big.wav'' oversize_server)) =
     [FallbackCall (replicate 26214401 0) 16000]"
  by (simp add: failing_run [OF chunk_server_file(1,2)] chunk_server_file transcribeAudio_def
      primary_attempt_eq fallback_attempt_def record_action_def example_env_def oversize_server_def
      empty_server_def MAX_AUDIO_SIZE_def)


section \<open>Which error comes out of a failed chunk\<close>

text \<open>The result of one attempt: a failed fallback leaves the error of the primary part.\<close>

lemma transcribeAudio_error_is_primary:
  "fst (transcribeAudio e audioPath s) =
     (if GROQ_API_KEY e = [] then Inl ''Groq API key not configured''
      else case fst (primary_attempt e audioPath s) of
             Inr text \<Rightarrow> Inr text
           | Inl err \<Rightarrow>
               (case fst (fallback_attempt e audioPath (snd (primary_attempt e audioPath s))) of
                  Some text \<Rightarrow> Inr text
                | None \<Rightarrow> Inl err))"
  by (simp add: transcribeAudio_def split: prod.splits sum.splits option.splits)

lemma chunk_session_fields:
  "tempFile chunk_session = Some ''chunk.wav''"
  by (simp add: chunk_session_def)

text \<open>
  Claim C8, at a chunk whose three primary attempts fail with ``socket hang up'' while the
  fallback fails with its own error. The error that \<^verbatim>\<open>transcribeWithRetry\<close> throws is the
  primary one, as the claim says. The client, however, receives neither: the \<^verbatim>\<open>catch\<close>
  block of \<^verbatim>\<open>processAudioChunk\<close> swallows the error and emits the fixed string.
\<close>

theorem client_error_event_is_generic:
  "fst (transcribeWithRetry failing_env ''chunk.wav'' MAX_RETRIES
          (chunk_server\<lparr>disk := (disk chunk_server)(''chunk.wav'' \<mapsto> header_patched 4 (wav_header 16000 @ [1, 2, 3, 4]))\<rparr>))
     = Inl ''socket hang up''
   \<and> (case processAudioChunk failing_env example_socket chunk_session chunk_server of
         Inl err \<Rightarrow> None
       | Inr (session', s') \<Rightarrow> Some (emitted s'))
     = Some [(''sock-1'', Emit ''error'' (ErrorString ''Failed to process audio''))]"
proof -
  define patched where "patched = header_patched 4 (wav_header 16000 @ [1, 2, 3, 4])"
  define s1 where "s1 = chunk_server\<lparr>disk := (disk chunk_server)(''chunk.wav'' \<mapsto> patched)\<rparr>"
  have len: "length patched = 48"
    by (simp add: patched_def header_patched_fields)
  have run: "transcribeWithRetry failing_env ''chunk.wav'' MAX_RETRIES s1 =
     (Inl ''socket hang up'',
      s1\<lparr>trace := trace s1 @
        [PrimaryCall patched, FallbackCall patched 16000, Retrying 1 1000,
         PrimaryCall patched, FallbackCall patched 16000, Retrying 2 2000,
         PrimaryCall patched, FallbackCall patched 16000]\<rparr>)"
    by (rule failing_run) (simp_all add: s1_def len MAX_AUDIO_SIZE_def)
  have chunk: "processAudioChunk_try failing_env example_socket ''chunk.wav'' chunk_session chunk_server =
      (Inl ''socket hang up'', chunk_session,
       s1\<lparr>trace := trace s1 @
        [PrimaryCall patched, FallbackCall patched 16000, Retrying 1 1000,
         PrimaryCall patched, FallbackCall patched 16000, Retrying 2 2000,
         PrimaryCall patched, FallbackCall patched 16000]\<rparr>)"
    using run
    by (simp add: processAudioChunk_try_patched [OF chunk_server_file(1)] s1_def patched_def)
  show ?thesis
    using run chunk
    by (simp add: processAudioChunk_def chunk_session_fields emit_def s1_def patched_def
        chunk_server_def empty_server_def example_socket_def)
qed

section \<open>What the handlers leave unchanged\<close>

lemma streamToDisk_frame:
  assumes "streamToDisk e session audioData s = (r, session', s')"
  shows "sampleRate session' = sampleRate session" "isPaused session' = isPaused session"
    "pendingChunks session' = pendingChunks session" "pendingFinalize session' = pendingFinalize session"
    "lastProcessed session' = lastProcessed session"
    "objects s' = objects s" "sessions s' = sessions s" "trace s' = trace s" "emitted s' = emitted s"
  using assms
  by (auto simp add: streamToDisk_def Let_def createWavHeader_mono16
      split: option.splits if_splits)

lemma replay_frame:
  assumes "replay e chunks session s = (session', s')"
  shows "sampleRate session' = sampleRate session \<and> isPaused session' = isPaused session
    \<and> objects s' = objects s \<and> sessions s' = sessions s \<and> trace s' = trace s
    \<and> emitted s' = emitted s"
  using assms
proof (induction chunks arbitrary: session s)
  case Nil
  then show ?case by simp
next
  case (Cons chunk chunks)
  obtain r session1 s1 where st: "streamToDisk e session chunk s = (r, session1, s1)"
    by (cases "streamToDisk e session chunk s") auto
  with Cons.prems have "replay e chunks session1 s1 = (session', s')" by simp
  from Cons.IH [OF this] streamToDisk_frame [OF st] show ?case by simp
qed

lemma processAudioChunk_keeps:
  assumes "processAudioChunk e sock session s = Inr (session', s')"
  shows "sampleRate session' = sampleRate session" "tempFile session' = tempFile session"
    "writeStream session' = writeStream session" "isPaused session' = isPaused session"
    "pendingFinalize session' = pendingFinalize session" "pendingChunks session' = pendingChunks session"
    "objects s' = objects s" "sessions s' = sessions s" "streams s' = streams s"
  using processAudioChunk_frame [OF assms] by auto

lemma audio_try_frame:
  assumes "audio_try e sock data ack session s = (r, session', s')"
  shows "sampleRate session' = sampleRate session \<and> objects s' = objects s \<and> sessions s' = sessions s
    \<and> isPaused session' = isPaused session \<and> pendingChunks session' = pendingChunks session"
proof (cases "decode_audio e data")
  case (Inl err)
  with assms show ?thesis by (simp add: audio_try_def)
next
  case (Inr audioData)
  show ?thesis
  proof (cases "isWav audioData")
    case False
    with assms Inr show ?thesis by (simp add: audio_try_def)
  next
    case True
    obtain r1 session1 s1 where st: "streamToDisk e session audioData s = (r1, session1, s1)"
      by (cases "streamToDisk e session audioData s") auto
    note fr = streamToDisk_frame [OF st]
    show ?thesis
    proof (cases r1)
      case (Inl err)
      with assms Inr True st fr show ?thesis by (simp add: audio_try_def)
    next
      case ok: (Inr f)
      define s2 where "s2 = (if ack then emit sock (Callback (AudioAck ''received'' (length audioData))) s1 else s1)"
      define bg where "bg = (if shouldProcessChunk e session1 audioData (disk s2) \<and> tempFile session1 \<noteq> None
                                then (case processAudioChunk e sock session1 s2 of
                                        Inl err \<Rightarrow>
                                          (session1,
                                           emit sock
                                             (Emit ''error''
                                                (ErrorObject ''Background processing error'' (Some err)))
                                             s2)
                                      | Inr done \<Rightarrow> done)
                                else (session1, s2))"
      have s2: "objects s2 = objects s" "sessions s2 = sessions s"
        by (simp_all add: s2_def emit_def fr)
      have bg: "sampleRate (fst bg) = sampleRate session \<and> objects (snd bg) = objects s
          \<and> sessions (snd bg) = sessions s \<and> isPaused (fst bg) = isPaused session
          \<and> pendingChunks (fst bg) = pendingChunks session"
      proof (cases "processAudioChunk e sock session1 s2")
        case (Inl err)
        then show ?thesis by (simp add: bg_def emit_def s2 fr)
      next
        case (Inr pair)
        then obtain sa sb where "processAudioChunk e sock session1 s2 = Inr (sa, sb)" and "pair = (sa, sb)"
          by (cases pair) auto
        with processAudioChunk_keeps [OF this(1)] show ?thesis
          by (simp add: bg_def s2 fr)
      qed
      have res: "(r, session', s') =
          (if pendingFinalize (fst bg)
           then (case processAudioChunk e sock (fst bg) (snd bg) of
                   Inl err \<Rightarrow> (Inl err, fst bg, snd bg)
                 | Inr (session3, s4) \<Rightarrow> (Inr (), session3\<lparr>pendingFinalize := False\<rparr>, s4))
           else (Inr (), fst bg, snd bg))"
      proof -
        have "audio_try e sock data ack session s =
          (if pendingFinalize (fst bg)
           then (case processAudioChunk e sock (fst bg) (snd bg) of
                   Inl err \<Rightarrow> (Inl err, fst bg, snd bg)
                 | Inr (session3, s4) \<Rightarrow> (Inr (), session3\<lparr>pendingFinalize := False\<rparr>, s4))
           else (Inr (), fst bg, snd bg))"
          unfolding audio_try_def bg_def s2_def Let_def
          using Inr True st ok by simp
        with assms show ?thesis by simp
      qed
      show ?thesis
      proof (cases "pendingFinalize (fst bg)")
        case False
        with res have "session' = fst bg" "s' = snd bg" by auto
        with bg show ?thesis by simp
      next
        case fin: True
        show ?thesis
        proof (cases "processAudioChunk e sock (fst bg) (snd bg)")
          case (Inl err)
          with res fin have "session' = fst bg" "s' = snd bg" by auto
          with bg show ?thesis by simp
        next
          case (Inr pair)
          then obtain sa sb where p: "processAudioChunk e sock (fst bg) (snd bg) = Inr (sa, sb)"
            by (cases pair) auto
          with res fin have "session' = sa\<lparr>pendingFinalize := False\<rparr>" "s' = sb" by simp_all
          with processAudioChunk_keeps [OF p] bg show ?thesis by simp
        qed
      qed
    qed
  qed
qed

section \<open>Session initialisation\<close>

text \<open>
  Claim C10. A session is created by the connection handler with the default rate of
  16000 Hz. An \<^verbatim>\<open>init\<close> message without a \<^verbatim>\<open>sampleRate\<close> field leaves that rate in place,
  and the acknowledgement (the callback when one is given, and always the \<^verbatim>\<open>init_ack\<close>
  event) reports \<^verbatim>\<open>success: true\<close>, the socket's id as session id and the rate 16000.
\<close>

theorem init_without_sampleRate_keeps_default:
  "let s1 = connection e0 sock s;
       s2 = on_init e sock (data\<lparr>init_sampleRate := None\<rparr>) cb s1;
       r = InitResponse True (sock_id sock) 16000 ''Session initialized successfully'' (now e)
   in map_option sampleRate (sessions_get s2 (sock_id sock)) = Some 16000
      \<and> emitted s2 = emitted s @ (if cb then [(sock_id sock, Callback r)] else [])
                                 @ [(sock_id sock, Emit ''init_ack'' r)]"
  by (simp add: connection_def on_init_def put_session_def emit_def sessions_get_def
      fresh_session_def SAMPLE_RATE_def Let_def)

section \<open>The stored sample rate\<close>

lemma sessions_get_Some:
  "sessions_get s k = Some session \<longleftrightarrow> k \<in> sessions s \<and> objects s k = Some session"
  by (simp add: sessions_get_def)

lemma objects_reply [simp]: "objects (reply sock cb r s) = objects s"
  by (simp add: reply_def emit_def)

lemma objects_emit [simp]: "objects (emit sock ev s) = objects s"
  by (simp add: emit_def)

lemma objects_put_session [simp]: "objects (put_session k session s) = (objects s)(k \<mapsto> session)"
  by (simp add: put_session_def)

lemma objects_cleanupSession [simp]: "objects (cleanupSession k session s) = objects s"
  by (simp add: cleanupSession_def Let_def split: option.splits)

lemma on_init_rate:
  assumes "objects s k = Some session"
  shows "map_option sampleRate (objects (on_init e sock data cb s) k) = Some
     (if k = sock_id sock
      then (case init_sampleRate data of
              Some r \<Rightarrow> (if r \<noteq> 0 then r else sampleRate session)
            | None \<Rightarrow> sampleRate session)
      else sampleRate session)"
  using assms by (auto simp add: on_init_def Let_def split: option.splits)

lemma on_audio_rate:
  assumes "objects s k = Some session"
  shows "map_option sampleRate (objects (on_audio e sock data ack s) k) = Some
     (if k = sock_id sock \<and> k \<in> sessions s \<and> \<not> isPaused session
      then (case msg_sampleRate data of
              Some r \<Rightarrow> (if r \<noteq> 0 then r else sampleRate session)
            | None \<Rightarrow> sampleRate session)
      else sampleRate session)"
proof (cases "sessions_get s (sock_id sock)")
  case None
  then have "on_audio e sock data ack s = s" by (simp add: on_audio_def)
  moreover from None assms have "\<not> (k = sock_id sock \<and> k \<in> sessions s)"
    by (auto simp add: sessions_get_def)
  ultimately show ?thesis using assms by auto
next
  case (Some sess)
  then have mem: "sock_id sock \<in> sessions s" and obj: "objects s (sock_id sock) = Some sess"
    by (simp_all add: sessions_get_Some)
  show ?thesis
  proof (cases "isPaused sess")
    case True
    define session1 where "session1 =
                       (case msg_data data of
                          Str str \<Rightarrow>
                            (if msg_format data = Some ''wav''
                             then sess\<lparr>pendingChunks := pendingChunks sess @ [base64 e str]\<rparr>
                             else sess)
                        | Arr xs \<Rightarrow>
                            sess\<lparr>pendingChunks := pendingChunks sess @ [Buffer_from xs]\<rparr>
                        | Other t \<Rightarrow> sess)"
    have rate: "sampleRate session1 = sampleRate sess"
      by (cases "msg_data data") (simp_all add: session1_def)
    have "objects (on_audio e sock data ack s) = (objects s)(sock_id sock \<mapsto> session1)"
      unfolding on_audio_def session1_def Let_def using Some True by simp
    then show ?thesis using assms obj True rate by auto
  next
    case False
    define session2 where "session2 = sess\<lparr>lastProcessed := now e,
                      sampleRate := (case msg_sampleRate data of
                                       Some r \<Rightarrow> (if r \<noteq> 0 then r else sampleRate sess)
                                     | None \<Rightarrow> sampleRate sess)\<rparr>"
    obtain r session3 s3 where t: "audio_try e sock data ack session2 s = (r, session3, s3)"
      by (cases "audio_try e sock data ack session2 s") auto
    from audio_try_frame [OF t] have fr: "sampleRate session3 = sampleRate session2" "objects s3 = objects s"
      by simp_all
    have "objects (on_audio e sock data ack s) = (objects s)(sock_id sock \<mapsto> session3)"
      using t fr by (cases r) (simp_all add: on_audio_recording [OF Some False] session2_def [symmetric])
    then show ?thesis using assms obj mem False fr by (auto simp add: session2_def)
  qed
qed

lemma on_pause_rate:
  assumes "objects s k = Some session"
  shows "map_option sampleRate (objects (on_pause sock cb s) k) = Some (sampleRate session)"
  using assms
  by (auto simp add: on_pause_def sessions_get_Some split: option.splits)

lemma on_resume_rate:
  assumes "objects s k = Some session"
  shows "map_option sampleRate (objects (on_resume e sock cb s) k) = Some (sampleRate session)"
proof (cases "socket_sessionId sock")
  case None
  with assms show ?thesis by (simp add: on_resume_def)
next
  case (Some sid)
  show ?thesis
  proof (cases "sessions_get s sid")
    case None
    with Some assms show ?thesis by (simp add: on_resume_def)
  next
    case sess: (Some sess)
    define session1 where "session1 = sess\<lparr>isPaused := False\<rparr>"
    define replayed where "replayed = (if 0 < length (pendingChunks session1)
                                then (case replay e (pendingChunks session1) session1 s of
                                        (session2, s2) \<Rightarrow> (session2\<lparr>pendingChunks := []\<rparr>, s2))
                                else (session1, s))"
    have rp: "sampleRate (fst replayed) = sampleRate sess \<and> objects (snd replayed) = objects s"
    proof (cases "0 < length (pendingChunks session1)")
      case False
      then show ?thesis by (simp add: replayed_def session1_def)
    next
      case True
      obtain session2 s2 where run: "replay e (pendingChunks session1) session1 s = (session2, s2)"
        by (cases "replay e (pendingChunks session1) session1 s") auto
      then have "replayed = (session2\<lparr>pendingChunks := []\<rparr>, s2)"
        using True by (simp add: replayed_def)
      with replay_frame [OF run] show ?thesis by (simp add: session1_def)
    qed
    have "objects (on_resume e sock cb s) = (objects (snd replayed))(sid \<mapsto> fst replayed)"
      unfolding on_resume_def replayed_def session1_def Let_def using Some sess by simp
    with rp assms sess show ?thesis by (auto simp add: sessions_get_Some)
  qed
qed

lemma on_stop_rate:
  assumes "objects s k = Some session"
  shows "map_option sampleRate (objects (on_stop e sock cb s) k) = Some (sampleRate session)"
proof (cases "socket_sessionId sock")
  case None
  with assms show ?thesis by (simp add: on_stop_def)
next
  case (Some sid)
  show ?thesis
  proof (cases "sessions_get s sid")
    case None
    with Some assms show ?thesis by (simp add: on_stop_def)
  next
    case sess: (Some sess)
    define session1 where "session1 = sess\<lparr>pendingFinalize := True\<rparr>"
    define processed where "processed = (if tempFile session1 \<noteq> None
                                 then processAudioChunk e sock session1 s
                                 else Inr (session1, s))"
    have obj: "objects s sid = Some sess" using sess by (simp add: sessions_get_Some)
    show ?thesis
    proof (cases processed)
      case (Inl err)
      have "objects (on_stop e sock cb s) =
          objects (case processed of
                     Inr (session2, s2) \<Rightarrow>
                       (let session3 = session2\<lparr>pendingFinalize := False\<rparr>
                        in reply sock cb
                             (StopResponse True ''Recording stopped and final chunk processed''
                                (tempFile session3) None)
                             (put_session sid session3 s2))
                   | Inl err \<Rightarrow>
                       reply sock cb
                         (StopResponse False ''Error stopping recording'' None (Some err))
                         (put_session sid session1 s))"
        unfolding on_stop_def processed_def session1_def Let_def using Some sess by simp
      then have "objects (on_stop e sock cb s) = (objects s)(sid \<mapsto> session1)"
        using Inl by simp
      with assms obj show ?thesis by (auto simp add: session1_def)
    next
      case (Inr pair)
      obtain session2 s2 where pair: "pair = (session2, s2)" by (cases pair)
      have keep: "sampleRate session2 = sampleRate sess \<and> objects s2 = objects s"
      proof (cases "tempFile session1 \<noteq> None")
        case True
        with Inr pair have "processAudioChunk e sock session1 s = Inr (session2, s2)"
          by (simp add: processed_def)
        from processAudioChunk_keeps [OF this] show ?thesis by (simp add: session1_def)
      next
        case False
        with Inr pair show ?thesis by (auto simp add: processed_def session1_def)
      qed
      have "objects (on_stop e sock cb s) =
          objects (case processed of
                     Inr (session2, s2) \<Rightarrow>
                       (let session3 = session2\<lparr>pendingFinalize := False\<rparr>
                        in reply sock cb
                             (StopResponse True ''Recording stopped and final chunk processed''
                                (tempFile session3) None)
                             (put_session sid session3 s2))
                   | Inl err \<Rightarrow>
                       reply sock cb
                         (StopResponse False ''Error stopping recording'' None (Some err))
                         (put_session sid session1 s))"
        unfolding on_stop_def processed_def session1_def Let_def using Some sess by simp
      then have "objects (on_stop e sock cb s) = (objects s2)(sid \<mapsto> session2\<lparr>pendingFinalize := False\<rparr>)"
        using Inr pair by simp
      with assms obj keep show ?thesis by auto
    qed
  qed
qed

lemma on_disconnect_rate:
  assumes "objects s k = Some session"
  shows "map_option sampleRate (objects (on_disconnect e sock s) k) = Some (sampleRate session)"
proof (cases "socket_sessionId sock")
  case None
  with assms show ?thesis by (simp add: on_disconnect_def)
next
  case (Some sid)
  show ?thesis
  proof (cases "sessions_get s sid")
    case None
    with Some assms show ?thesis by (simp add: on_disconnect_def)
  next
    case sess: (Some sess)
    define processed where "processed = (if tempFile sess \<noteq> None \<and> \<not> isPaused sess
                                 then (case processAudioChunk e sock sess s of
                                         Inl err \<Rightarrow> (sess, s)
                                       | Inr pair \<Rightarrow> pair)
                                 else (sess, s))"
    have obj: "objects s sid = Some sess" using sess by (simp add: sessions_get_Some)
    have keep: "sampleRate (fst processed) = sampleRate sess \<and> objects (snd processed) = objects s"
    proof (cases "processAudioChunk e sock sess s")
      case (Inl err)
      then show ?thesis by (simp add: processed_def)
    next
      case (Inr pair)
      obtain session2 s2 where pair: "pair = (session2, s2)" by (cases pair)
      from processAudioChunk_keeps [OF Inr [unfolded pair]] show ?thesis
        by (simp add: processed_def Inr pair)
    qed
    have "objects (on_disconnect e sock s) = (objects (snd processed))(sid \<mapsto> fst processed)"
      unfolding on_disconnect_def processed_def Let_def using Some sess by simp
    with assms obj keep show ?thesis by auto
  qed
qed

lemma on_process_audio_rate:
  assumes "objects s k = Some session"
  shows "map_option sampleRate (objects (on_process_audio e sock s) k) = Some (sampleRate session)"
proof (cases "sessions_get s (sock_id sock)")
  case None
  with assms show ?thesis by (simp add: on_process_audio_def)
next
  case (Some sess)
  have obj: "objects s (sock_id sock) = Some sess" using Some by (simp add: sessions_get_Some)
  show ?thesis
  proof (cases "0 < length (audioChunks sess)")
    case False
    with Some assms show ?thesis by (simp add: on_process_audio_def)
  next
    case True
    show ?thesis
    proof (cases "processAudioChunk e sock sess s")
      case (Inl err)
      with Some True assms show ?thesis by (simp add: on_process_audio_def)
    next
      case (Inr pair)
      obtain session2 s2 where pair: "pair = (session2, s2)" by (cases pair)
      from processAudioChunk_keeps [OF Inr [unfolded pair]]
      have "sampleRate session2 = sampleRate sess" "objects s2 = objects s" by simp_all
      moreover have "objects (on_process_audio e sock s) = (objects s2)(sock_id sock \<mapsto> session2)"
        using Some True Inr pair by (simp add: on_process_audio_def)
      ultimately show ?thesis using assms obj by auto
    qed
  qed
qed

text \<open>
  Claim C9, as the code has it. The stored sample rate of a session object is 16000 from
  the connection on and changes in exactly two places: an \<^verbatim>\<open>init\<close> message with a non-zero
  \<^verbatim>\<open>sampleRate\<close> on the session's socket, and an \<^verbatim>\<open>audio\<close> frame with a non-zero
  \<^verbatim>\<open>sampleRate\<close> handled for that session while it is in the map and not paused; both
  overwrite it with the declared rate. Every other handler, a frame handled while paused,
  and any event on another socket leave it as it is.
\<close>

theorem sampleRate_changes_only_by_init_and_audio:
  assumes "objects s k = Some session"
  shows "map_option sampleRate (objects (handle e sock ev s) k) = Some
     (case ev of
        Init data cb \<Rightarrow>
          (if k = sock_id sock
           then (case init_sampleRate data of
                   Some r \<Rightarrow> (if r \<noteq> 0 then r else sampleRate session)
                 | None \<Rightarrow> sampleRate session)
           else sampleRate session)
      | Audio data ack \<Rightarrow>
          (if k = sock_id sock \<and> k \<in> sessions s \<and> \<not> isPaused session
           then (case msg_sampleRate data of
                   Some r \<Rightarrow> (if r \<noteq> 0 then r else sampleRate session)
                 | None \<Rightarrow> sampleRate session)
           else sampleRate session)
      | ProcessAudio \<Rightarrow> sampleRate session
      | PauseRecording cb \<Rightarrow> sampleRate session
      | ResumeRecording cb \<Rightarrow> sampleRate session
      | StopRecording cb \<Rightarrow> sampleRate session
      | Disconnect \<Rightarrow> sampleRate session)"
proof (cases ev)
  case (Init data cb)
  then show ?thesis using on_init_rate [OF assms] by simp
next
  case (Audio data ack)
  then show ?thesis using on_audio_rate [OF assms] by simp
next
  case ProcessAudio
  then show ?thesis using on_process_audio_rate [OF assms] by simp
next
  case (PauseRecording cb)
  then show ?thesis using on_pause_rate [OF assms] by simp
next
  case (ResumeRecording cb)
  then show ?thesis using on_resume_rate [OF assms] by simp
next
  case (StopRecording cb)
  then show ?thesis using on_stop_rate [OF assms] by simp
next
  case Disconnect
  then show ?thesis using on_disconnect_rate [OF assms] by simp
qed

text \<open>The theorem at a fresh session and a frame that declares 44100 Hz.\<close>

theorem sampleRate_changes_only_by_init_and_audio_witness:
  "objects (connection example_env example_socket empty_server) ''sock-1''
     = Some (fresh_session example_env)
   \<and> map_option sampleRate
       (objects
          (handle example_env example_socket
             (Audio \<lparr>msg_data = Arr (wav_frame 2988), msg_format = Some ''wav'',
                     msg_sampleRate = Some 44100\<rparr> True)
             (connection example_env example_socket empty_server))
          ''sock-1'')
     = Some 44100"
proof -
  have obj: "objects (connection example_env example_socket empty_server) ''sock-1''
      = Some (fresh_session example_env)"
    by (simp add: connection_def example_socket_def)
  show ?thesis
    using obj sampleRate_changes_only_by_init_and_audio [OF obj, of example_env example_socket
        "Audio \<lparr>msg_data = Arr (wav_frame 2988), msg_format = Some ''wav'',
                msg_sampleRate = Some 44100\<rparr> True"]
    by (simp add: example_socket_def connection_def fresh_session_def)
qed

text \<open>
  Against claim C9 as stated: a session created with 16000 Hz receives one audio frame
  that declares 44100 Hz, and its stored sample rate is 44100 afterwards.
\<close>

theorem audio_frame_overwrites_sampleRate_counterexample:
  "map_option sampleRate (objects (connection example_env example_socket empty_server) ''sock-1'')
     = Some 16000
   \<and> map_option sampleRate
       (objects
          (on_audio example_env example_socket
             \<lparr>msg_data = Arr (wav_frame 2988), msg_format = Some ''wav'', msg_sampleRate = Some 44100\<rparr>
             True (connection example_env example_socket empty_server))
          ''sock-1'')
     = Some 44100"
proof -
  have obj: "objects (connection example_env example_socket empty_server) ''sock-1''
      = Some (fresh_session example_env)"
    by (simp add: connection_def example_socket_def)
  show ?thesis
    using obj on_audio_rate [OF obj, of example_env example_socket
        "\<lparr>msg_data = Arr (wav_frame 2988), msg_format = Some ''wav'', msg_sampleRate = Some 44100\<rparr>" True]
    by (simp add: example_socket_def connection_def fresh_session_def SAMPLE_RATE_def)
qed

section \<open>Disconnecting\<close>

lemma on_disconnect_without_id:
  assumes "sock_sessionId sock = None"
  shows "on_disconnect e sock s = s"
  using assms by (simp add: on_disconnect_def socket_sessionId_def)

lemma small_frame_is_stored:
  assumes get: "sessions_get s (sock_id sock) = Some (fresh_session example_env)"
    and free: "disk s (join TEMP_DIR (uuid example_env @ ''.wav'')) = None"
  shows "on_audio example_env sock
           \<lparr>msg_data = Arr (wav_frame 4), msg_format = Some ''wav'', msg_sampleRate = Some 16000\<rparr> True s
     = put_session (sock_id sock)
         ((fresh_session example_env)
            \<lparr>tempFile := Some (join TEMP_DIR (uuid example_env @ ''.wav'')),
             writeStream := Some (join TEMP_DIR (uuid example_env @ ''.wav''))\<rparr>)
         (s\<lparr>disk := (disk s)(join TEMP_DIR (uuid example_env @ ''.wav'')
                        \<mapsto> wav_header 16000 @ Buffer_from (wav_frame 4)),
             streams := insert (join TEMP_DIR (uuid example_env @ ''.wav'')) (streams s),
             emitted := emitted s @ [(sock_id sock, Callback (AudioAck ''received'' 16))]\<rparr>)"
proof -
  define path where "path = join TEMP_DIR (uuid example_env @ ''.wav'')"
  define frame where "frame = \<lparr>msg_data = Arr (wav_frame 4), msg_format = Some ''wav'', msg_sampleRate = Some 16000\<rparr>"
  define session0 where "session0 = (fresh_session example_env)\<lparr>lastProcessed := now example_env, sampleRate := 16000\<rparr>"
  define session1 where "session1 = session0\<lparr>tempFile := Some path, writeStream := Some path\<rparr>"
  define content where "content = wav_header 16000 @ Buffer_from (wav_frame 4)"
  define s1 where "s1 = s\<lparr>disk := (disk s)(path \<mapsto> content), streams := insert path (streams s)\<rparr>"
  define s2 where "s2 = emit sock (Callback (AudioAck ''received'' 16)) s1"
  have same: "session0 = fresh_session example_env"
    by (simp add: session0_def fresh_session_def SAMPLE_RATE_def)
  have rec: "\<not> isPaused (fresh_session example_env)" by (simp add: fresh_session_def)
  have wav: "isWav (Buffer_from (wav_frame 4))" using isWav_wav_frame [of 3] by simp
  have stream: "streamToDisk example_env session0 (Buffer_from (wav_frame 4)) s = (Inr (Some path), session1, s1)"
    using streamToDisk_new [of session0 example_env "Buffer_from (wav_frame 4)" s]
    by (simp add: session0_def session1_def path_def content_def fresh_session_def s1_def)
  have f: "tempFile session1 = Some path" "disk s2 path = Some content"
    by (simp_all add: session1_def s2_def s1_def emit_def)
  have short: "\<not> shouldProcessChunk example_env session1 (Buffer_from (wav_frame 4)) (disk s2)"
    by (simp add: shouldProcessChunk_eq [of session1 path "disk s2" content, OF f])
      (simp add: session1_def session0_def fresh_session_def content_def length_wav_header example_env_def)
  have fin: "\<not> pendingFinalize session1"
    by (simp add: session1_def session0_def fresh_session_def)
  have "audio_try example_env sock frame True session0 s = (Inr (), session1, s2)"
    using wav short [unfolded s2_def] fin
    by (simp add: audio_try_def decode_audio_def frame_def stream Let_def s2_def)
  then have "on_audio example_env sock frame True s = put_session (sock_id sock) session1 s2"
    by (simp add: on_audio_recording [OF get rec] frame_def session0_def [symmetric])
  then show ?thesis
    unfolding frame_def session1_def s2_def s1_def content_def path_def [symmetric] same
    by (simp add: emit_def)
qed


text \<open>
  The idle timer is what releases a session: once its last frame is more than five
  minutes old the timer cleans it up, and submits nothing.
\<close>

lemma reap_idle_session:
  assumes "sessions_get s k = Some session" "5 * 60 * 1000 < now e - lastProcessed session"
  shows "reap e k s = cleanupSession k session s" "trace (reap e k s) = trace s"
  using assms by (simp_all add: reap_def cleanupSession_def Let_def split: option.splits)

text \<open>
  Claim C5, at a socket that connects, streams one frame of 16 bytes and disconnects. The
  disconnect handler looks for the session id on the socket object, finds none and
  returns: the remainder is not submitted, the stream stays open, the chunk file stays on
  disk and the session stays in the map.
\<close>

theorem disconnect_releases_nothing:
  "(let frame = \<lparr>msg_data = Arr (wav_frame 4), msg_format = Some ''wav'', msg_sampleRate = Some 16000\<rparr>;
        s1 = connection example_env example_socket empty_server;
        s2 = on_audio example_env example_socket frame True s1;
        s3 = on_disconnect example_env example_socket s2
    in map_option tempFile (sessions_get s2 ''sock-1'') = Some (Some ''temp/c0ffee.wav'')
     \<and> map_option (drop 44) (disk s2 ''temp/c0ffee.wav'') = Some (Buffer_from (wav_frame 4))
     \<and> s3 = s2
     \<and> trace s3 = []
     \<and> ''temp/c0ffee.wav'' \<in> streams s3
     \<and> map_option (drop 44) (disk s3 ''temp/c0ffee.wav'') = Some (Buffer_from (wav_frame 4))
     \<and> ''sock-1'' \<in> sessions s3)"
proof -
  define s1 where "s1 = connection example_env example_socket empty_server"
  define frame where "frame = \<lparr>msg_data = Arr (wav_frame 4), msg_format = Some ''wav'', msg_sampleRate = Some 16000\<rparr>"
  define s2 where "s2 = on_audio example_env example_socket frame True s1"
  have get: "sessions_get s1 (sock_id example_socket) = Some (fresh_session example_env)"
    unfolding s1_def by (rule sessions_get_connection)
  have free: "disk s1 (join TEMP_DIR (uuid example_env @ ''.wav'')) = None"
    by (simp add: s1_def connection_def empty_server_def)
  have path: "join TEMP_DIR (uuid example_env @ ''.wav'') = ''temp/c0ffee.wav''"
    by (simp add: join_def TEMP_DIR_def example_env_def)
  note stored = small_frame_is_stored [OF get free, unfolded path, folded frame_def s2_def]
  have same: "on_disconnect example_env example_socket s2 = s2"
    by (rule on_disconnect_without_id) (simp add: example_socket_def)
  have "map_option tempFile (sessions_get s2 ''sock-1'') = Some (Some ''temp/c0ffee.wav'')"
    by (simp add: stored sessions_get_def put_session_def example_socket_def s1_def connection_def)
  moreover have "map_option (drop 44) (disk s2 ''temp/c0ffee.wav'') = Some (Buffer_from (wav_frame 4))"
    by (simp add: stored put_session_def length_wav_header)
  moreover have "trace s2 = []"
    by (simp add: stored put_session_def s1_def connection_def empty_server_def)
  moreover have "''temp/c0ffee.wav'' \<in> streams s2" "''sock-1'' \<in> sessions s2"
    by (simp_all add: stored put_session_def s1_def connection_def example_socket_def)
  ultimately show ?thesis
    unfolding Let_def s1_def [symmetric] frame_def [symmetric] s2_def [symmetric] same by simp
qed

section \<open>Pausing and resuming\<close>

text \<open>The three control handlers that a pause involves, at a socket without a session id.\<close>

lemma on_pause_without_id:
  assumes "sock_sessionId sock = None"
  shows "on_pause sock cb s = reply sock cb (ControlResponse False ''No session ID found'') s"
  using assms by (simp add: on_pause_def socket_sessionId_def)

lemma on_resume_without_id:
  assumes "sock_sessionId sock = None"
  shows "on_resume e sock cb s = reply sock cb (ControlResponse False ''No session ID found'') s"
  using assms by (simp add: on_resume_def socket_sessionId_def)

lemma on_stop_without_id:
  assumes "sock_sessionId sock = None"
  shows "on_stop e sock cb s = reply sock cb (StopResponse False ''No session ID found'' None None) s"
  using assms by (simp add: on_stop_def socket_sessionId_def)

text \<open>No handler and no timer sets \<^verbatim>\<open>isPaused\<close> or fills \<^verbatim>\<open>pendingChunks\<close> on such a server.\<close>

lemma on_audio_stays_unpaused:
  assumes inv: "\<And>k session. objects s k = Some session \<Longrightarrow> \<not> isPaused session \<and> pendingChunks session = []"
    and obj: "objects (on_audio e sock data ack s) k = Some session"
  shows "\<not> isPaused session \<and> pendingChunks session = []"
proof (cases "sessions_get s (sock_id sock)")
  case None
  then have "on_audio e sock data ack s = s" by (simp add: on_audio_def)
  with inv obj show ?thesis by simp
next
  case (Some sess)
  then have own: "objects s (sock_id sock) = Some sess" by (simp add: sessions_get_Some)
  from inv [OF own] have rec: "\<not> isPaused sess" and queue: "pendingChunks sess = []" by simp_all
  define session2 where "session2 = sess\<lparr>lastProcessed := now e,
                    sampleRate := (case msg_sampleRate data of
                                     Some r \<Rightarrow> (if r \<noteq> 0 then r else sampleRate sess)
                                   | None \<Rightarrow> sampleRate sess)\<rparr>"
  obtain r session3 s3 where t: "audio_try e sock data ack session2 s = (r, session3, s3)"
    by (cases "audio_try e sock data ack session2 s") auto
  from audio_try_frame [OF t] have fr: "isPaused session3 = isPaused session2"
    "pendingChunks session3 = pendingChunks session2" "objects s3 = objects s"
    by simp_all
  have "objects (on_audio e sock data ack s) = (objects s)(sock_id sock \<mapsto> session3)"
    using t fr by (cases r) (simp_all add: on_audio_recording [OF Some rec] session2_def [symmetric])
  with obj have "session = session3 \<or> objects s k = Some session"
    by (auto split: if_splits)
  then show ?thesis
    using inv [of k session] fr rec queue by (auto simp add: session2_def)
qed

lemma objects_reap [simp]: "objects (reap e k s) = objects s"
  by (simp add: reap_def Let_def split: option.splits)

lemma objects_sweep [simp]: "objects (sweep e ids s) = objects s"
proof -
  have "objects (foldl (\<lambda>s1 sessionId. reap e sessionId s1) s ids) = objects s"
    by (induction ids arbitrary: s) simp_all
  then show ?thesis by (simp add: sweep_def)
qed

lemma handle_stays_unpaused:
  assumes inv: "\<And>k session. objects s k = Some session \<Longrightarrow> \<not> isPaused session \<and> pendingChunks session = []"
    and sock: "sock_sessionId sock = None"
    and obj: "objects (handle e sock ev s) k = Some session"
  shows "\<not> isPaused session \<and> pendingChunks session = []"
proof (cases ev)
  case (Init data cb)
  show ?thesis
  proof (cases "objects s (sock_id sock)")
    case None
    with obj Init inv show ?thesis by (simp add: on_init_def)
  next
    case (Some sessionData)
    from inv [OF Some] obj Init Some inv [of k session] show ?thesis
      by (auto simp add: on_init_def Let_def split: option.splits if_splits)
  qed
next
  case (Audio data ack)
  with obj have "objects (on_audio e sock data ack s) k = Some session" by simp
  from on_audio_stays_unpaused [of s e sock data ack k session, OF inv this] show ?thesis by simp
next
  case ProcessAudio
  show ?thesis
  proof (cases "sessions_get s (sock_id sock)")
    case None
    with obj ProcessAudio inv show ?thesis by (simp add: on_process_audio_def)
  next
    case (Some sess)
    then have own: "objects s (sock_id sock) = Some sess" by (simp add: sessions_get_Some)
    show ?thesis
    proof (cases "0 < length (audioChunks sess)")
      case False
      with obj ProcessAudio Some inv show ?thesis by (simp add: on_process_audio_def)
    next
      case True
      show ?thesis
      proof (cases "processAudioChunk e sock sess s")
        case (Inl err)
        with obj ProcessAudio Some True inv show ?thesis by (simp add: on_process_audio_def)
      next
        case (Inr pair)
        then obtain sa sb where p: "processAudioChunk e sock sess s = Inr (sa, sb)"
          by (cases pair) auto
        note keeps = processAudioChunk_keeps [OF p]
        have "objects (handle e sock ev s) = (objects s)(sock_id sock \<mapsto> sa)"
          using ProcessAudio Some True p keeps by (simp add: on_process_audio_def)
        with obj have "session = sa \<or> objects s k = Some session" by (auto split: if_splits)
        then show ?thesis using inv [of k session] inv [OF own] keeps by auto
      qed
    qed
  qed
next
  case (PauseRecording cb)
  with obj inv show ?thesis by (simp add: on_pause_without_id [OF sock])
next
  case (ResumeRecording cb)
  with obj inv show ?thesis by (simp add: on_resume_without_id [OF sock])
next
  case (StopRecording cb)
  with obj inv show ?thesis by (simp add: on_stop_without_id [OF sock])
next
  case Disconnect
  with obj inv show ?thesis by (simp add: on_disconnect_without_id [OF sock])
qed

text \<open>
  On a running server no session is paused and no frame is waiting for a resume: the
  state that pausing should enter is never reached.
\<close>

lemma no_session_is_ever_paused:
  assumes "reachable s" "objects s k = Some session"
  shows "\<not> isPaused session \<and> pendingChunks session = []"
  using assms
proof (induction arbitrary: k session rule: reachable.induct)
  case reachable_start
  then show ?case by (simp add: empty_server_def)
next
  case (reachable_connection s sock e)
  then show ?case
    by (auto simp add: connection_def fresh_session_def split: if_splits)
next
  case (reachable_handle s sock e ev)
  show ?case
    by (rule handle_stays_unpaused [of s sock e ev k session])
      (use reachable_handle in auto)
next
  case (reachable_sweep s e ids)
  then show ?case by simp
qed



text \<open>
  Claim C4, at a socket that connects, asks for a pause, streams one frame of half a
  second (16000 bytes at 16 kHz) and asks to resume. The pause handler looks for the
  session id on the socket object, finds none and refuses: the session is not paused. The
  frame is not held back: it goes to the chunk file and, the file being long enough, to
  the transcription service, and its transcript is sent while the client takes the
  recording for paused. The resume is refused in the same way and replays nothing.
\<close>

theorem pause_is_refused_and_frames_are_not_held:
  "(let frame = \<lparr>msg_data = Arr (wav_frame 15988), msg_format = Some ''wav'', msg_sampleRate = Some 16000\<rparr>;
        s1 = connection example_env example_socket empty_server;
        s2 = on_pause example_socket True s1;
        s3 = on_audio example_env example_socket frame True s2;
        s4 = on_resume example_env example_socket True s3
    in emitted s2 = [(''sock-1'', Callback (ControlResponse False ''No session ID found''))]
     \<and> map_option isPaused (sessions_get s2 ''sock-1'') = Some False
     \<and> map_option pendingChunks (sessions_get s3 ''sock-1'') = Some []
     \<and> map submitted_data (trace s3) = [Buffer_from (wav_frame 15988)]
     \<and> emitted s3 = emitted s2
          @ [(''sock-1'', Callback (AudioAck ''received'' 16000)),
             (''sock-1'', Emit ''transcript'' (TranscriptEvent ''hello'' True ''groq''))]
     \<and> s4 = emit example_socket (Callback (ControlResponse False ''No session ID found'')) s3)"
proof -
  define frame where "frame = \<lparr>msg_data = Arr (wav_frame 15988), msg_format = Some ''wav'', msg_sampleRate = Some 16000\<rparr>"
  define A where "A = Buffer_from (wav_frame 15988)"
  define session0 where "session0 = (fresh_session example_env)\<lparr>lastProcessed := now example_env, sampleRate := 16000\<rparr>"
  define path where "path = join TEMP_DIR (uuid example_env @ ''.wav'')"
  define session1 where "session1 = session0\<lparr>tempFile := Some path, writeStream := Some path\<rparr>"
  define content1 where "content1 = wav_header 16000 @ A"
  define patched1 where "patched1 = header_patched 16000 content1"
  define s1 where "s1 = connection example_env example_socket empty_server"
  define s2 where "s2 = on_pause example_socket True s1"
  define s3 where "s3 = on_audio example_env example_socket frame True s2"
  have none: "sock_sessionId example_socket = None" by (simp add: example_socket_def)
  have id: "sock_id example_socket = ''sock-1''" by (simp add: example_socket_def)
  have s2_eq: "s2 = emit example_socket (Callback (ControlResponse False ''No session ID found'')) s1"
    by (simp add: s2_def on_pause_without_id [OF none] reply_def)
  have lenA: "length A = 16000" by (simp add: A_def)
  have wavA: "isWav A" unfolding A_def using isWav_wav_frame [of 15987] by simp
  have len1: "length content1 = 16044" by (simp add: content1_def lenA)
  have data1: "drop 44 patched1 = A"
    by (simp add: patched1_def header_patched_fields len1) (simp add: content1_def)
  have s0: "(fresh_session example_env)\<lparr>lastProcessed := now example_env, sampleRate := 16000\<rparr> = session0"
    by (simp add: session0_def)
  have get1: "sessions_get s1 (sock_id example_socket) = Some (fresh_session example_env)"
    unfolding s1_def by (rule sessions_get_connection)
  have get2: "sessions_get s2 (sock_id example_socket) = Some (fresh_session example_env)"
    using get1 by (auto simp add: s2_eq emit_def sessions_get_def split: if_splits)
  have rec: "\<not> isPaused (fresh_session example_env)" by (simp add: fresh_session_def)
  have free: "disk s2 path = None"
    by (simp add: s2_eq emit_def s1_def connection_def empty_server_def)
  have stream: "streamToDisk example_env session0 A s2 =
     (Inr (Some path), session1, s2\<lparr>disk := (disk s2)(path \<mapsto> content1), streams := insert path (streams s2)\<rparr>)"
    using streamToDisk_new [of session0 example_env A s2]
    by (simp add: session0_def session1_def path_def content1_def fresh_session_def)
  have flush: "audio_try example_env example_socket frame True session0 s2 =
     (Inr (), session1\<lparr>lastProcessed := 1700000000000\<rparr>,
      s2\<lparr>disk := (disk s2)(path \<mapsto> patched1), streams := insert path (streams s2),
         trace := trace s2 @ [PrimaryCall patched1],
         emitted := emitted s2
           @ [(sock_id example_socket, Callback (AudioAck ''received'' 16000)),
              (sock_id example_socket, Emit ''transcript'' (TranscriptEvent ''hello'' True ''groq''))]\<rparr>)"
    unfolding frame_def
    by (subst audio_try_example_flush [OF stream [unfolded A_def], of content1])
      (simp_all add: wavA [unfolded A_def] session1_def session0_def fresh_session_def len1
         MAX_AUDIO_SIZE_def patched1_def)
  have s3_eq: "s3 = put_session (sock_id example_socket) (session1\<lparr>lastProcessed := 1700000000000\<rparr>)
      (s2\<lparr>disk := (disk s2)(path \<mapsto> patched1), streams := insert path (streams s2),
         trace := trace s2 @ [PrimaryCall patched1],
         emitted := emitted s2
           @ [(sock_id example_socket, Callback (AudioAck ''received'' 16000)),
              (sock_id example_socket, Emit ''transcript'' (TranscriptEvent ''hello'' True ''groq''))]\<rparr>)"
    unfolding s3_def
    by (simp add: on_audio_recording [OF get2 rec] frame_def [symmetric] s0 flush)
      (simp add: frame_def s0 flush [unfolded frame_def])
  have in_map: "''sock-1'' \<in> sessions s2"
    by (simp add: s2_eq emit_def s1_def connection_def id)
  have tr2: "trace s2 = []" by (simp add: s2_eq emit_def s1_def connection_def empty_server_def)
  have "emitted s2 = [(''sock-1'', Callback (ControlResponse False ''No session ID found''))]"
    by (simp add: s2_eq emit_def s1_def connection_def empty_server_def id)
  moreover have "map_option isPaused (sessions_get s2 ''sock-1'') = Some False"
    using get2 rec by (simp add: id)
  moreover have "map_option pendingChunks (sessions_get s3 ''sock-1'') = Some []"
    using in_map
    by (simp add: s3_eq sessions_get_def put_session_def id session1_def session0_def fresh_session_def)
  moreover have "map submitted_data (trace s3) = [Buffer_from (wav_frame 15988)]"
    by (simp add: s3_eq put_session_def tr2 data1 A_def)
  moreover have "emitted s3 = emitted s2
          @ [(''sock-1'', Callback (AudioAck ''received'' 16000)),
             (''sock-1'', Emit ''transcript'' (TranscriptEvent ''hello'' True ''groq''))]"
    by (simp add: s3_eq put_session_def id)
  moreover have "on_resume example_env example_socket True s3
      = emit example_socket (Callback (ControlResponse False ''No session ID found'')) s3"
    by (simp add: on_resume_without_id [OF none] reply_def)
  ultimately show ?thesis
    unfolding Let_def s1_def [symmetric] frame_def [symmetric] s2_def [symmetric] s3_def [symmetric]
    by simp
qed

end
